theory Spec2Isabelle
  imports Complex_Main "HOL-Library.Sublist"
begin

text \<open>
  The MAGDA DSL interpreters of \<open>magda_agents.agents.daw\<close>: the handlers of
  \<open>dsl_parser.py\<close> and \<open>dsl_parser_action_paradigm.py\<close>, which turn method calls into
  actions, and the expression evaluator and combinators of \<open>dsl_parser_functional.py\<close>.
  Objects are records passed from call to call, exceptions are values, loops are recursive
  functions.
\<close>

section \<open>Python values, dictionaries and exceptions\<close>

text \<open>
  The values the interpreter handles are the JSON-like values of the session snapshot and of
  the DSL's literals. A Python \<open>dict\<close> keeps its insertion order, so it is an association
  list; a \<open>float\<close> is only ever copied by the code below, never computed with, and is
  carried as a real number. \<open>PObject t\<close> is any other object (a bound method, an object
  of the library), known by the name of its type only: it is no container, and it is truthy
  as objects are by default.
\<close>

datatype pyval =
    PNone
  | PBool bool
  | PInt int
  | PFloat real
  | PStr string
  | PList "pyval list"
  | PDict "(string \<times> pyval) list"
  | PObject string

type_synonym pydict = "(string \<times> pyval) list"

text \<open>Every \<open>raise\<close> of the source is a \<open>ValueError\<close> with a message; the other
  constructors are the exceptions Python itself raises on ill-typed data.\<close>

datatype error =
    ValueError string
  | TypeError
  | AttributeError
  | IndexError
  | KeyError
  | OtherException string

text \<open>\<open>d.get(k, default)\<close> and \<open>d[k] = v\<close> (an existing key keeps its place, a new
  key goes last). A plain lookup is \<open>map_of d k\<close>.\<close>

definition dict_get_default :: "pydict \<Rightarrow> string \<Rightarrow> pyval \<Rightarrow> pyval" where
  "dict_get_default d k dflt = (case map_of d k of None \<Rightarrow> dflt | Some v \<Rightarrow> v)"

fun dict_set :: "string \<Rightarrow> pyval \<Rightarrow> pydict \<Rightarrow> pydict" where
  "dict_set k v [] = [(k, v)]"
| "dict_set k v (p # ps) = (if fst p = k then (k, v) # ps else p # dict_set k v ps)"

text \<open>Python truthiness of a value (\<open>if x:\<close>).\<close>

fun truthy :: "pyval \<Rightarrow> bool" where
  "truthy PNone = False"
| "truthy (PBool b) = b"
| "truthy (PInt n) = (n \<noteq> 0)"
| "truthy (PFloat r) = (r \<noteq> 0)"
| "truthy (PStr s) = (s \<noteq> [])"
| "truthy (PList xs) = (xs \<noteq> [])"
| "truthy (PDict d) = (d \<noteq> [])"
| "truthy (PObject t) = True"

text \<open>\<open>type(x).__name__\<close>, as the error messages print it.\<close>

fun type_name :: "pyval \<Rightarrow> string" where
  "type_name PNone = ''NoneType''"
| "type_name (PBool b) = ''bool''"
| "type_name (PInt n) = ''int''"
| "type_name (PFloat r) = ''float''"
| "type_name (PStr s) = ''str''"
| "type_name (PList xs) = ''list''"
| "type_name (PDict d) = ''dict''"
| "type_name (PObject t) = t"

text \<open>\<open>s.rstrip(chars)\<close> removes every trailing character that occurs in \<open>chars\<close>;
  \<open>s.lstrip(chars)\<close> does the same at the front.\<close>

definition rstrip :: "string \<Rightarrow> string \<Rightarrow> string" where
  "rstrip chars s = rev (dropWhile (\<lambda>c. c \<in> set chars) (rev s))"

definition lstrip :: "string \<Rightarrow> string \<Rightarrow> string" where
  "lstrip chars s = dropWhile (\<lambda>c. c \<in> set chars) s"


section \<open>The session snapshot: \<open>_get_selected_track_index\<close>\<close>

text \<open>
  The body is the same in \<open>dsl_parser.py\<close> and \<open>dsl_parser_action_paradigm.py\<close>.
  \<open>first_selected i tracks\<close> is the loop \<open>for i, track in enumerate(tracks)\<close>:
  the index of the first element that is a dict whose \<open>selected\<close> entry is truthy, or -1.
\<close>

fun first_selected :: "int \<Rightarrow> pyval list \<Rightarrow> int" where
  "first_selected i [] = -1"
| "first_selected i (PDict t # ts) =
     (if truthy (dict_get_default t ''selected'' (PBool False)) then i
      else first_selected (i + 1) ts)"
| "first_selected i (t # ts) = first_selected (i + 1) ts"

text \<open>Iterating a dict yields its keys and iterating a string its characters: strings, never
  dicts, so the loop finds nothing. The other values are not iterable.\<close>

fun selected_in_tracks :: "pyval \<Rightarrow> error + int" where
  "selected_in_tracks (PList ts) = Inr (first_selected 0 ts)"
| "selected_in_tracks (PDict d) = Inr (-1)"
| "selected_in_tracks (PStr s) = Inr (-1)"
| "selected_in_tracks v = Inl TypeError"

fun get_selected_track_index :: "pydict option \<Rightarrow> error + int" where
  "get_selected_track_index None = Inr (-1)"
| "get_selected_track_index (Some st) =
     (case dict_get_default st ''state'' (PDict st) of
        PDict state_map \<Rightarrow> selected_in_tracks (dict_get_default state_map ''tracks'' (PList []))
      | _ \<Rightarrow> Inl AttributeError)"


section \<open>\<open>dsl_parser.py\<close>: class \<open>MagdaDSLGrammar\<close>\<close>

record grammar =
  actions :: "pydict list"
  current_track_index :: int
  track_counter :: int
  state :: "pydict option"

definition init_grammar :: grammar where
  "init_grammar = \<lparr>actions = [], current_track_index = -1, track_counter = 0, state = None\<rparr>"

definition set_state :: "pydict \<Rightarrow> grammar \<Rightarrow> grammar" where
  "set_state st g = g\<lparr>state := Some st\<rparr>"

definition reset :: "grammar \<Rightarrow> grammar" where
  "reset g = g\<lparr>actions := [], current_track_index := -1, track_counter := 0\<rparr>"

text \<open>A handler returns the exception it raised, if any, and the object as it is then.\<close>

type_synonym 'g handler_result = "error option \<times> 'g"

definition opt_entry :: "string \<Rightarrow> string option \<Rightarrow> pydict \<Rightarrow> pydict" where
  "opt_entry k v d = (case v of None \<Rightarrow> d | Some s \<Rightarrow> dict_set k (PStr s) d)"

definition track ::
  "string option \<Rightarrow> string option \<Rightarrow> int option \<Rightarrow> int option \<Rightarrow> bool option \<Rightarrow>
   grammar \<Rightarrow> grammar handler_result" where
  "track instrument name index id' selected g =
     (case id' of
        Some i \<Rightarrow> (None, g\<lparr>current_track_index := i - 1\<rparr>)
      | None \<Rightarrow>
          if selected = Some True then
            (case get_selected_track_index (state g) of
               Inl e \<Rightarrow> (Some e, g)
             | Inr selected_index \<Rightarrow>
                 if selected_index \<ge> 0 then (None, g\<lparr>current_track_index := selected_index\<rparr>)
                 else (Some (ValueError ''No selected track found in state''), g))
          else
            let action = [(''action'', PStr ''create_track'')];
                action = opt_entry ''instrument'' instrument action;
                action = opt_entry ''name'' name action;
                ix = (case index of Some k \<Rightarrow> k | None \<Rightarrow> track_counter g);
                action = dict_set ''index'' (PInt ix) action
            in (None, g\<lparr>track_counter := ix + 1,
                          current_track_index := ix,
                          actions := actions g @ [action]\<rparr>))"

definition opt_int :: "int option \<Rightarrow> int \<Rightarrow> pyval" where
  "opt_int v dflt = PInt (case v of None \<Rightarrow> dflt | Some n \<Rightarrow> n)"

definition opt_float :: "real option \<Rightarrow> real \<Rightarrow> pyval" where
  "opt_float v dflt = PFloat (case v of None \<Rightarrow> dflt | Some r \<Rightarrow> r)"

text \<open>The part of \<open>new_clip\<close> after the track is resolved: the action dict, or the
  \<open>ValueError\<close> of the last branch. The parameters \<open>end\<close> and \<open>length\<close> are named \<open>end'\<close> and \<open>length'\<close> here, and the \<open>id\<close> of \<open>track\<close> is \<open>id'\<close>.\<close>

definition clip_action ::
  "int \<Rightarrow> int option \<Rightarrow> real option \<Rightarrow> int option \<Rightarrow> real option \<Rightarrow> real option \<Rightarrow>
   error + pydict" where
  "clip_action track_index bar start length_bars length' position =
     (let action = [(''track'', PInt track_index)] in
      case bar of
        Some b \<Rightarrow>
          Inr (dict_set ''length_bars'' (opt_int length_bars 4)
                (dict_set ''bar'' (PInt b)
                  (dict_set ''action'' (PStr ''create_clip_at_bar'') action)))
      | None \<Rightarrow>
          (case start of
             Some s \<Rightarrow>
               Inr (dict_set ''length'' (opt_float length' 4.0)
                     (dict_set ''position'' (PFloat s)
                       (dict_set ''action'' (PStr ''create_clip'') action)))
           | None \<Rightarrow>
               (case position of
                  Some p \<Rightarrow>
                    Inr (dict_set ''length'' (opt_float length' 4.0)
                          (dict_set ''position'' (PFloat p)
                            (dict_set ''action'' (PStr ''create_clip'') action)))
                | None \<Rightarrow>
                    Inl (ValueError ''clip call must specify bar, start, or position''))))"

definition new_clip ::
  "int option \<Rightarrow> real option \<Rightarrow> real option \<Rightarrow> int option \<Rightarrow> real option \<Rightarrow> real option \<Rightarrow>
   grammar \<Rightarrow> grammar handler_result" where
  "new_clip bar start end' length_bars length' position g =
     (case (if current_track_index g < 0
            then (case get_selected_track_index (state g) of
                    Inl e \<Rightarrow> Inl e
                  | Inr track_index \<Rightarrow>
                      if track_index < 0
                      then Inl (ValueError
                        ''No track context for clip call and no selected track found'')
                      else Inr track_index)
            else Inr (current_track_index g)) of
        Inl e \<Rightarrow> (Some e, g)
      | Inr track_index \<Rightarrow>
          (case clip_action track_index bar start length_bars length' position of
             Inl e \<Rightarrow> (Some e, g)
           | Inr action \<Rightarrow> (None, g\<lparr>actions := actions g @ [action]\<rparr>)))"

definition add_midi :: "pyval list option \<Rightarrow> pydict option \<Rightarrow> grammar \<Rightarrow> grammar handler_result" where
  "add_midi notes note g =
     (if current_track_index g < 0 then (Some (ValueError ''No track context for midi call''), g)
      else
        let action = [(''action'', PStr ''add_midi''),
                      (''track'', PInt (current_track_index g)),
                      (''notes'', PList (case notes of None \<Rightarrow> [] | Some ns \<Rightarrow> ns))];
            action = (case note of None \<Rightarrow> action
                      | Some n \<Rightarrow> dict_set ''notes'' (PList [PDict n]) action)
        in (None, g\<lparr>actions := actions g @ [action]\<rparr>))"

definition add_fx :: "string option \<Rightarrow> string option \<Rightarrow> grammar \<Rightarrow> grammar handler_result" where
  "add_fx fxname instrument g =
     (if current_track_index g < 0 then (Some (ValueError ''No track context for FX call''), g)
      else
        let action = [(''action'', PStr ''add_track_fx''),
                      (''track'', PInt (current_track_index g))]
        in case fxname of
             Some f \<Rightarrow> (None, g\<lparr>actions := actions g @ [dict_set ''fxname'' (PStr f) action]\<rparr>)
           | None \<Rightarrow>
               (case instrument of
                  Some i \<Rightarrow>
                    (None, g\<lparr>actions := actions g @
                       [dict_set ''fxname'' (PStr i)
                          (dict_set ''action'' (PStr ''add_instrument'') action)]\<rparr>)
                | None \<Rightarrow> (Some (ValueError ''FX call must specify fxname or instrument''), g)))"

text \<open>The five setters share one shape: the guard, then one dict appended.\<close>

definition set_track_field ::
  "string \<Rightarrow> string \<Rightarrow> string \<Rightarrow> pyval \<Rightarrow> grammar \<Rightarrow> grammar handler_result" where
  "set_track_field what kind field v g =
     (if current_track_index g < 0
      then (Some (ValueError (''No track context for '' @ what @ '' call'')), g)
      else (None, g\<lparr>actions := actions g @
              [[(''action'', PStr kind), (''track'', PInt (current_track_index g)), (field, v)]]\<rparr>))"

definition set_volume :: "real \<Rightarrow> grammar \<Rightarrow> grammar handler_result" where
  "set_volume volume_db = set_track_field ''volume'' ''set_track_volume'' ''volume_db'' (PFloat volume_db)"

definition set_pan :: "real \<Rightarrow> grammar \<Rightarrow> grammar handler_result" where
  "set_pan pan = set_track_field ''pan'' ''set_track_pan'' ''pan'' (PFloat pan)"

definition set_mute :: "bool \<Rightarrow> grammar \<Rightarrow> grammar handler_result" where
  "set_mute mute = set_track_field ''mute'' ''set_track_mute'' ''mute'' (PBool mute)"

definition set_solo :: "bool \<Rightarrow> grammar \<Rightarrow> grammar handler_result" where
  "set_solo solo = set_track_field ''solo'' ''set_track_solo'' ''solo'' (PBool solo)"

definition set_name :: "string \<Rightarrow> grammar \<Rightarrow> grammar handler_result" where
  "set_name name = set_track_field ''name'' ''set_track_name'' ''name'' (PStr name)"

text \<open>The calls of a program, one constructor per \<open>@method\<close> handler, with its keyword
  arguments in the order of the signature.\<close>

datatype call =
    Track "string option" "string option" "int option" "int option" "bool option"
  | NewClip "int option" "real option" "real option" "int option" "real option" "real option"
  | AddMidi "pyval list option" "pydict option"
  | AddFx "string option" "string option"
  | SetVolume real
  | SetPan real
  | SetMute bool
  | SetSolo bool
  | SetName string

fun exec_call :: "call \<Rightarrow> grammar \<Rightarrow> grammar handler_result" where
  "exec_call (Track instrument name index id' selected) g = track instrument name index id' selected g"
| "exec_call (NewClip bar start end' length_bars length' position) g =
     new_clip bar start end' length_bars length' position g"
| "exec_call (AddMidi notes note) g = add_midi notes note g"
| "exec_call (AddFx fxname instrument) g = add_fx fxname instrument g"
| "exec_call (SetVolume v) g = set_volume v g"
| "exec_call (SetPan v) g = set_pan v g"
| "exec_call (SetMute v) g = set_mute v g"
| "exec_call (SetSolo v) g = set_solo v g"
| "exec_call (SetName v) g = set_name v g"

text \<open>
  Modelled from the spec: \<open>Grammar.execute\<close> belongs to the \<open>grammar_school\<close> library, which
  is not part of the repository. By sections 5 and 6 of the spec a program is a sequence of
  method calls interpreted strictly in order, the first handler failure aborts the rest, and
  what was emitted before the failure stays.
\<close>

fun run :: "call list \<Rightarrow> grammar \<Rightarrow> grammar handler_result" where
  "run [] g = (None, g)"
| "run (c # cs) g =
     (case exec_call c g of
        (Some e, g') \<Rightarrow> (Some e, g')
      | (None, g') \<Rightarrow> run cs g')"

text \<open>A creation call is a \<open>track(...)\<close> call that takes neither reference branch.\<close>

fun is_plain_creation :: "call \<Rightarrow> bool" where
  "is_plain_creation (Track instrument name None None selected) = (selected \<noteq> Some True)"
| "is_plain_creation c = False"

fun is_indexed_creation :: "call \<Rightarrow> bool" where
  "is_indexed_creation (Track instrument name (Some k) None selected) = (selected \<noteq> Some True)"
| "is_indexed_creation c = False"


section \<open>\<open>dsl_parser_action_paradigm.py\<close>: \<open>MagdaDSLGrammar\<close> and \<open>MagdaActionCollector\<close>\<close>

record action =
  kind :: string
  payload :: pydict

text \<open>
  The only runtime of the repository is \<open>MagdaActionCollector\<close>, whose state is its list
  \<open>actions\<close>: \<open>ap_runtime\<close> is that list when a collector is attached and \<open>None\<close> when
  \<open>_runtime\<close> is \<open>None\<close>. \<open>ap_actions\<close> is \<open>self._actions\<close>. The test that \<open>track\<close> makes
  with \<open>hasattr\<close> (the object has an \<open>interpreter\<close> whose \<open>dsl\<close> has a \<open>_runtime\<close>) depends
  on the library's base class; its outcome is the field \<open>ap_interpreter_dsl_runtime\<close>, and
  \<open>interpreter.dsl\<close> is the grammar object itself.
\<close>

record ap_grammar =
  ap_runtime :: "action list option"
  ap_actions :: "action list"
  ap_current_track_index :: int
  ap_track_counter :: int
  ap_state :: "pydict option"
  ap_data :: pydict
  ap_interpreter_dsl_runtime :: bool

text \<open>The object as \<open>__init__\<close> leaves it, and \<open>set_state\<close>.\<close>

definition init_ap_grammar :: "action list option \<Rightarrow> bool \<Rightarrow> ap_grammar" where
  "init_ap_grammar runtime interpreter_dsl_runtime =
     \<lparr>ap_runtime = runtime, ap_actions = [], ap_current_track_index = -1, ap_track_counter = 0,
      ap_state = None, ap_data = [], ap_interpreter_dsl_runtime = interpreter_dsl_runtime\<rparr>"

definition ap_set_state :: "pydict \<Rightarrow> ap_grammar \<Rightarrow> ap_grammar" where
  "ap_set_state st g = g\<lparr>ap_state := Some st\<rparr>"

definition execute :: "action \<Rightarrow> action list \<Rightarrow> action list" where
  "execute a collected = collected @ [a]"

definition get_actions :: "action list \<Rightarrow> pydict list" where
  "get_actions collected =
     map (\<lambda>a. foldl (\<lambda>d (k, v). dict_set k v d) [(''action'', PStr (kind a))] (payload a)) collected"

definition clear :: "action list \<Rightarrow> action list" where
  "clear collected = []"

definition emit_action :: "action \<Rightarrow> ap_grammar \<Rightarrow> ap_grammar" where
  "emit_action a g =
     (case ap_runtime g of
        Some collected \<Rightarrow> g\<lparr>ap_runtime := Some (execute a collected)\<rparr>
      | None \<Rightarrow> g\<lparr>ap_actions := ap_actions g @ [a]\<rparr>)"

definition ap_track ::
  "string option \<Rightarrow> string option \<Rightarrow> int option \<Rightarrow> int option \<Rightarrow> bool option \<Rightarrow>
   ap_grammar \<Rightarrow> ap_grammar handler_result" where
  "ap_track instrument name index id' selected g =
     (case id' of
        Some i \<Rightarrow> (None, g\<lparr>ap_current_track_index := i - 1\<rparr>)
      | None \<Rightarrow>
          if selected = Some True then
            (case get_selected_track_index (ap_state g) of
               Inl e \<Rightarrow> (Some e, g)
             | Inr selected_index \<Rightarrow>
                 if selected_index \<ge> 0 then (None, g\<lparr>ap_current_track_index := selected_index\<rparr>)
                 else (Some (ValueError ''No selected track found in state''), g))
          else
            let action_payload = opt_entry ''name'' name (opt_entry ''instrument'' instrument []);
                ix = (case index of Some k \<Rightarrow> k | None \<Rightarrow> ap_track_counter g);
                action_payload = dict_set ''index'' (PInt ix) action_payload;
                g = g\<lparr>ap_track_counter := ix + 1, ap_current_track_index := ix\<rparr>;
                a = \<lparr>kind = ''create_track'', payload = action_payload\<rparr>
            in if ap_interpreter_dsl_runtime g then
                 (case ap_runtime g of
                    Some collected \<Rightarrow> (None, g\<lparr>ap_runtime := Some (execute a collected)\<rparr>)
                  | None \<Rightarrow> (None, g))
               else (None, g\<lparr>ap_actions := ap_actions g @ [a]\<rparr>))"

text \<open>The payload and kind that \<open>new_clip\<close> builds once the track is resolved.\<close>

definition ap_clip_action ::
  "int \<Rightarrow> int option \<Rightarrow> real option \<Rightarrow> int option \<Rightarrow> real option \<Rightarrow> real option \<Rightarrow>
   error + action" where
  "ap_clip_action track_index bar start length_bars length' position =
     (let payload = [(''track'', PInt track_index)] in
      case bar of
        Some b \<Rightarrow>
          Inr \<lparr>kind = ''create_clip_at_bar'',
               payload = dict_set ''length_bars'' (opt_int length_bars 4)
                           (dict_set ''bar'' (PInt b) payload)\<rparr>
      | None \<Rightarrow>
          (case start of
             Some s \<Rightarrow>
               Inr \<lparr>kind = ''create_clip'',
                    payload = dict_set ''length'' (opt_float length' 4.0)
                                (dict_set ''position'' (PFloat s) payload)\<rparr>
           | None \<Rightarrow>
               (case position of
                  Some p \<Rightarrow>
                    Inr \<lparr>kind = ''create_clip'',
                         payload = dict_set ''length'' (opt_float length' 4.0)
                                     (dict_set ''position'' (PFloat p) payload)\<rparr>
                | None \<Rightarrow>
                    Inl (ValueError ''clip call must specify bar, start, or position''))))"

definition ap_new_clip ::
  "int option \<Rightarrow> real option \<Rightarrow> real option \<Rightarrow> int option \<Rightarrow> real option \<Rightarrow> real option \<Rightarrow>
   ap_grammar \<Rightarrow> ap_grammar handler_result" where
  "ap_new_clip bar start end' length_bars length' position g =
     (case (if ap_current_track_index g < 0
            then (case get_selected_track_index (ap_state g) of
                    Inl e \<Rightarrow> Inl e
                  | Inr track_index \<Rightarrow>
                      if track_index < 0
                      then Inl (ValueError
                        ''No track context for clip call and no selected track found'')
                      else Inr track_index)
            else Inr (ap_current_track_index g)) of
        Inl e \<Rightarrow> (Some e, g)
      | Inr track_index \<Rightarrow>
          (case ap_clip_action track_index bar start length_bars length' position of
             Inl e \<Rightarrow> (Some e, g)
           | Inr a \<Rightarrow> (None, emit_action a g)))"

definition ap_add_midi ::
  "pyval list option \<Rightarrow> pydict option \<Rightarrow> ap_grammar \<Rightarrow> ap_grammar handler_result" where
  "ap_add_midi notes note g =
     (if ap_current_track_index g < 0
      then (Some (ValueError ''No track context for midi call''), g)
      else
        let payload = [(''track'', PInt (ap_current_track_index g)),
                       (''notes'', PList (case notes of None \<Rightarrow> [] | Some ns \<Rightarrow> ns))];
            payload = (case note of None \<Rightarrow> payload
                       | Some n \<Rightarrow> dict_set ''notes'' (PList [PDict n]) payload)
        in (None, emit_action \<lparr>kind = ''add_midi'', payload = payload\<rparr> g))"

definition ap_add_fx ::
  "string option \<Rightarrow> string option \<Rightarrow> ap_grammar \<Rightarrow> ap_grammar handler_result" where
  "ap_add_fx fxname instrument g =
     (if ap_current_track_index g < 0
      then (Some (ValueError ''No track context for FX call''), g)
      else
        let payload = [(''track'', PInt (ap_current_track_index g))]
        in case fxname of
             Some f \<Rightarrow>
               (None, emit_action
                  \<lparr>kind = ''add_track_fx'', payload = dict_set ''fxname'' (PStr f) payload\<rparr> g)
           | None \<Rightarrow>
               (case instrument of
                  Some i \<Rightarrow>
                    (None, emit_action
                       \<lparr>kind = ''add_instrument'', payload = dict_set ''fxname'' (PStr i) payload\<rparr> g)
                | None \<Rightarrow> (Some (ValueError ''FX call must specify fxname or instrument''), g)))"

definition ap_set_track_field ::
  "string \<Rightarrow> string \<Rightarrow> string \<Rightarrow> pyval \<Rightarrow> ap_grammar \<Rightarrow> ap_grammar handler_result" where
  "ap_set_track_field what knd field v g =
     (if ap_current_track_index g < 0
      then (Some (ValueError (''No track context for '' @ what @ '' call'')), g)
      else (None, emit_action
              \<lparr>kind = knd, payload = [(''track'', PInt (ap_current_track_index g)), (field, v)]\<rparr> g))"

definition ap_set_volume :: "real \<Rightarrow> ap_grammar \<Rightarrow> ap_grammar handler_result" where
  "ap_set_volume volume_db =
     ap_set_track_field ''volume'' ''set_track_volume'' ''volume_db'' (PFloat volume_db)"

definition ap_set_pan :: "real \<Rightarrow> ap_grammar \<Rightarrow> ap_grammar handler_result" where
  "ap_set_pan pan = ap_set_track_field ''pan'' ''set_track_pan'' ''pan'' (PFloat pan)"

definition ap_set_mute :: "bool \<Rightarrow> ap_grammar \<Rightarrow> ap_grammar handler_result" where
  "ap_set_mute mute = ap_set_track_field ''mute'' ''set_track_mute'' ''mute'' (PBool mute)"

definition ap_set_solo :: "bool \<Rightarrow> ap_grammar \<Rightarrow> ap_grammar handler_result" where
  "ap_set_solo solo = ap_set_track_field ''solo'' ''set_track_solo'' ''solo'' (PBool solo)"

definition ap_set_name :: "string \<Rightarrow> ap_grammar \<Rightarrow> ap_grammar handler_result" where
  "ap_set_name name = ap_set_track_field ''name'' ''set_track_name'' ''name'' (PStr name)"

definition ap_store :: "string \<Rightarrow> pyval \<Rightarrow> ap_grammar \<Rightarrow> ap_grammar handler_result" where
  "ap_store name v g = (None, g\<lparr>ap_data := dict_set name v (ap_data g)\<rparr>)"

text \<open>A program of this grammar: the handler calls, and \<open>store\<close>.\<close>

datatype ap_call = Handler call | Store string pyval

fun ap_exec_call :: "ap_call \<Rightarrow> ap_grammar \<Rightarrow> ap_grammar handler_result" where
  "ap_exec_call (Handler (Track instrument name index id' selected)) g =
     ap_track instrument name index id' selected g"
| "ap_exec_call (Handler (NewClip bar start end' length_bars length' position)) g =
     ap_new_clip bar start end' length_bars length' position g"
| "ap_exec_call (Handler (AddMidi notes note)) g = ap_add_midi notes note g"
| "ap_exec_call (Handler (AddFx fxname instrument)) g = ap_add_fx fxname instrument g"
| "ap_exec_call (Handler (SetVolume v)) g = ap_set_volume v g"
| "ap_exec_call (Handler (SetPan v)) g = ap_set_pan v g"
| "ap_exec_call (Handler (SetMute v)) g = ap_set_mute v g"
| "ap_exec_call (Handler (SetSolo v)) g = ap_set_solo v g"
| "ap_exec_call (Handler (SetName v)) g = ap_set_name v g"
| "ap_exec_call (Store name v) g = ap_store name v g"

text \<open>Modelled from the spec: the library's \<open>Grammar.execute\<close>, as for \<open>run\<close> above.\<close>

fun ap_run :: "ap_call list \<Rightarrow> ap_grammar \<Rightarrow> ap_grammar handler_result" where
  "ap_run [] g = (None, g)"
| "ap_run (c # cs) g =
     (case ap_exec_call c g of
        (Some e, g') \<Rightarrow> (Some e, g')
      | (None, g') \<Rightarrow> ap_run cs g')"


text \<open>
  The sink of an interpretation, by the docstring of \<open>__init__\<close>: ``If provided, Actions will
  be passed to runtime.execute(). If None, actions are stored in self._actions list.''
\<close>

definition action_sink :: "ap_grammar \<Rightarrow> action list" where
  "action_sink g = (case ap_runtime g of Some collected \<Rightarrow> collected | None \<Rightarrow> ap_actions g)"

text \<open>The two branches of \<open>track\<close> that return with ``No action for reference''.\<close>

fun is_reference :: "call \<Rightarrow> bool" where
  "is_reference (Track instrument name index (Some i) selected) = True"
| "is_reference (Track instrument name index None selected) = (selected = Some True)"
| "is_reference c = False"

fun emitting :: "ap_call \<Rightarrow> bool" where
  "emitting (Handler c) = (\<not> is_reference c)"
| "emitting (Store name v) = False"


section \<open>\<open>dsl_parser_functional.py\<close>: \<open>ReaperFunctionalInterpreter\<close> and \<open>ReaperDSLGrammar\<close>\<close>

text \<open>
  The grammar object and its interpreter are one state: \<open>iteration_context\<close> is the
  interpreter's \<open>_iteration_context\<close>, the other fields are the attributes that
  \<open>ReaperDSLGrammar.__init__\<close> sets (\<open>rf_actions\<close> is \<open>_actions\<close>).
\<close>

record rgrammar =
  rf_current_track_index :: int
  rf_track_counter :: int
  rf_state :: "pydict option"
  rf_data :: pydict
  rf_actions :: "pydict list"
  iteration_context :: pydict

text \<open>A Python callable of one argument: it may raise, and it may change the object.\<close>

type_synonym callable = "pyval \<Rightarrow> rgrammar \<Rightarrow> (error + pyval) \<times> rgrammar"

datatype attr = Callable callable | Plain pyval

text \<open>
  What the code takes from Python and from the \<open>grammar_school\<close> library, neither of which
  is in the repository, is a parameter:
  \<^item> \<open>other_attrs\<close>: the attributes of the grammar object other than those that
    \<open>__init__\<close> sets, that is its methods and what the base class defines;
  \<^item> \<open>value_attr v name\<close>: \<open>getattr(v, name)\<close> when \<open>hasattr(v, name)\<close>, for a value;
  \<^item> \<open>binop\<close>: Python's arithmetic and comparison operators;
  \<^item> \<open>evaluate_other\<close>: the library's \<open>_evaluate_value\<close> on an argument that is no AST node.
\<close>

record host =
  other_attrs :: "string \<Rightarrow> attr option"
  value_attr :: "pyval \<Rightarrow> string \<Rightarrow> pyval option"
  binop :: "string \<Rightarrow> pyval \<Rightarrow> pyval \<Rightarrow> error + pyval"
  evaluate_other :: "pyval \<Rightarrow> rgrammar \<Rightarrow> error + pyval"

text \<open>The AST of \<open>grammar_school.ast\<close>, by the fields the code reads: \<open>Value\<close>,
  \<open>PropertyAccess(object_name, properties)\<close> and \<open>Expression(left, operator, right)\<close>.\<close>

datatype node =
    Value pyval
  | PropertyAccess string "string list"
  | Expression node "string option" "node option"

definition set_iteration_context :: "pydict \<Rightarrow> rgrammar \<Rightarrow> rgrammar" where
  "set_iteration_context context g = g\<lparr>iteration_context := context\<rparr>"

definition clear_iteration_context :: "rgrammar \<Rightarrow> rgrammar" where
  "clear_iteration_context g = g\<lparr>iteration_context := []\<rparr>"

text \<open>\<open>hasattr(self, name)\<close> and \<open>getattr(self, name)\<close> on the grammar object.\<close>

definition dsl_attr :: "host \<Rightarrow> rgrammar \<Rightarrow> string \<Rightarrow> attr option" where
  "dsl_attr h g name =
     (if name = ''current_track_index'' then Some (Plain (PInt (rf_current_track_index g)))
      else if name = ''track_counter'' then Some (Plain (PInt (rf_track_counter g)))
      else if name = ''state''
        then Some (Plain (case rf_state g of None \<Rightarrow> PNone | Some st \<Rightarrow> PDict st))
      else if name = ''data'' then Some (Plain (PDict (rf_data g)))
      else if name = ''_actions'' then Some (Plain (PList (map PDict (rf_actions g))))
      else if name = ''interpreter'' then Some (Plain (PObject ''ReaperFunctionalInterpreter''))
      else other_attrs h name)"

text \<open>\<open>getattr(self.dsl, name, None)\<close>.\<close>

definition dsl_getattr :: "host \<Rightarrow> rgrammar \<Rightarrow> string \<Rightarrow> pyval" where
  "dsl_getattr h g name =
     (case dsl_attr h g name of
        None \<Rightarrow> PNone
      | Some (Plain v) \<Rightarrow> v
      | Some (Callable c) \<Rightarrow> PObject ''method'')"

definition isdigit :: "string \<Rightarrow> bool" where
  "isdigit s = (s \<noteq> [] \<and> list_all (\<lambda>c. c \<in> set ''0123456789'') s)"

definition int_of_digits :: "string \<Rightarrow> nat" where
  "int_of_digits s = foldl (\<lambda>n c. 10 * n + (of_char c - 48)) 0 s"

text \<open>The loop \<open>for prop_name in prop.properties\<close>.\<close>

fun navigate :: "host \<Rightarrow> pyval \<Rightarrow> string list \<Rightarrow> error + pyval" where
  "navigate h result [] = Inr result"
| "navigate h result (prop_name # props) =
     (case value_attr h result prop_name of
        Some v \<Rightarrow> navigate h v props
      | None \<Rightarrow>
          (case result of
             PDict d \<Rightarrow> navigate h (dict_get_default d prop_name PNone) props
           | PList xs \<Rightarrow>
               if isdigit prop_name then
                 (let index = int_of_digits prop_name in
                  if index < length xs then navigate h (xs ! index) props else Inl IndexError)
               else Inl (ValueError (''Property '' @ [CHR 0x27] @ prop_name @ [CHR 0x27]
                           @ '' not found on '' @ type_name result))
           | _ \<Rightarrow> Inl (ValueError (''Property '' @ [CHR 0x27] @ prop_name @ [CHR 0x27]
                           @ '' not found on '' @ type_name result))))"

definition evaluate_property_access ::
  "host \<Rightarrow> rgrammar \<Rightarrow> string \<Rightarrow> string list \<Rightarrow> error + pyval" where
  "evaluate_property_access h g object_name properties =
     (case map_of (iteration_context g) object_name of
        Some obj \<Rightarrow> navigate h obj properties
      | None \<Rightarrow>
          (let obj = dsl_getattr h g object_name;
               obj = (if obj = PNone then dict_get_default (rf_data g) object_name PNone else obj)
           in if obj = PNone then Inl (ValueError (''Unknown object: '' @ object_name))
              else navigate h obj properties))"

text \<open>The keys of the table \<open>operators\<close>, and the application of its entry. \<open>a and b\<close> is
  \<open>b\<close> when \<open>a\<close> is truthy and \<open>a\<close> otherwise; \<open>a or b\<close> the other way round.\<close>

definition operators :: "string list" where
  "operators = [''+'', ''-'', ''*'', ''/'', ''=='', ''!='', ''<'', ''>'', ''<='', ''>='',
                ''and'', ''or'']"

definition apply_operator :: "host \<Rightarrow> string \<Rightarrow> pyval \<Rightarrow> pyval \<Rightarrow> error + pyval" where
  "apply_operator h op a b =
     (if op = ''and'' then Inr (if truthy a then b else a)
      else if op = ''or'' then Inr (if truthy a then a else b)
      else binop h op a b)"

text \<open>
  Modelled from the spec: \<open>evaluate_value\<close> is the dispatcher \<open>_evaluate_value\<close> of the
  base class \<open>Interpreter\<close> of the \<open>grammar_school\<close> library, which the repository does
  not contain; by section 4.3 of the spec a literal evaluates to itself, a property access goes
  to the resolver (\<open>_evaluate_property_access\<close>) and an expression node to
  \<open>_evaluate_expression\<close>. \<open>evaluate_expression\<close> is \<open>_evaluate_expression\<close> of the
  source, on the three fields of the expression.
\<close>

function evaluate_value :: "host \<Rightarrow> rgrammar \<Rightarrow> node \<Rightarrow> error + pyval"
  and evaluate_expression ::
    "host \<Rightarrow> rgrammar \<Rightarrow> node \<Rightarrow> string option \<Rightarrow> node option \<Rightarrow> error + pyval" where
  "evaluate_value h g (Value v) = Inr v"
| "evaluate_value h g (PropertyAccess object_name properties) =
     evaluate_property_access h g object_name properties"
| "evaluate_value h g (Expression left operator right) =
     evaluate_expression h g left operator right"
| "evaluate_expression h g left None right = evaluate_value h g left"
| "evaluate_expression h g left (Some op) right =
     (case evaluate_value h g left of
        Inl e \<Rightarrow> Inl e
      | Inr left_val \<Rightarrow>
          (case (case right of None \<Rightarrow> Inr PNone | Some r \<Rightarrow> evaluate_value h g r) of
             Inl e \<Rightarrow> Inl e
           | Inr right_val \<Rightarrow>
               if op \<in> set operators then apply_operator h op left_val right_val
               else Inl (ValueError (''Unknown operator: '' @ op))))"
  by pat_completeness auto
termination
  by (relation "measure (\<lambda>x. case x of
          Inl (h, g, n) \<Rightarrow> 2 * size n
        | Inr (h, g, l, op, r) \<Rightarrow> 2 * (size l + size_option size r) + 1)") auto

text \<open>
  The arguments of the combinators. A collection is a value: a string names an entry of
  \<open>data\<close>, anything else is taken as it is. A predicate is an AST node, a callable, or
  another value; a function is a callable or another value (a string is a reference
  \<open>@name\<close>).
\<close>

datatype predicate = PredNode node | PredCallable callable | PredValue pyval

datatype funcarg = FuncCallable callable | FuncValue pyval

text \<open>The \<open>try\<close> block of \<open>filter\<close>: the value of the predicate for one item, or the
  exception raised.\<close>

fun eval_predicate :: "host \<Rightarrow> predicate \<Rightarrow> pyval \<Rightarrow> rgrammar \<Rightarrow> (error + pyval) \<times> rgrammar" where
  "eval_predicate h (PredNode n) item g = (evaluate_value h g n, g)"
| "eval_predicate h (PredCallable f) item g = f item g"
| "eval_predicate h (PredValue (PBool b)) item g = (Inr (PBool b), g)"
| "eval_predicate h (PredValue v) item g = (evaluate_other h v g, g)"

text \<open>The loop of \<open>filter\<close>: the binding is set, the predicate evaluated, an exception
  skips the item (\<open>except Exception: continue\<close>), and \<open>finally\<close> clears the binding.\<close>

fun filter_loop ::
  "host \<Rightarrow> string \<Rightarrow> predicate \<Rightarrow> pyval list \<Rightarrow> pyval list \<Rightarrow> rgrammar \<Rightarrow> pyval list \<times> rgrammar" where
  "filter_loop h iter_var pred [] filtered g = (filtered, g)"
| "filter_loop h iter_var pred (item # items) filtered g =
     (case eval_predicate h pred item (set_iteration_context [(iter_var, item)] g) of
        (Inr result, g') \<Rightarrow>
          filter_loop h iter_var pred items
            (if truthy result then filtered @ [item] else filtered)
            (clear_iteration_context g')
      | (Inl e, g') \<Rightarrow>
          filter_loop h iter_var pred items filtered (clear_iteration_context g'))"

text \<open>The first lines of each combinator: the collection and the iteration variable.\<close>

definition resolve_collection :: "pyval \<Rightarrow> rgrammar \<Rightarrow> pyval \<times> string" where
  "resolve_collection collection g =
     (case collection of
        PStr name \<Rightarrow>
          (dict_get_default (rf_data g) name (PList []), rstrip ''_chain'' (rstrip ''s'' name))
      | _ \<Rightarrow> (collection, ''item''))"

definition filter_method ::
  "host \<Rightarrow> pyval \<Rightarrow> predicate \<Rightarrow> rgrammar \<Rightarrow> (error + pyval list) \<times> rgrammar" where
  "filter_method h collection pred g =
     (case resolve_collection collection g of
        (PList actual_collection, iter_var) \<Rightarrow>
          (case filter_loop h iter_var pred actual_collection [] g of
             (filtered, g') \<Rightarrow> (Inr filtered, g'))
      | (v, iter_var) \<Rightarrow>
          (Inl (ValueError (''Collection must be a list, got '' @ type_name v)), g))"

text \<open>Whether \<open>filter\<close> keeps an item under a predicate given as an AST node: the node
  evaluates, under the binding of the item, to a truthy value.\<close>

definition kept :: "host \<Rightarrow> rgrammar \<Rightarrow> string \<Rightarrow> node \<Rightarrow> pyval \<Rightarrow> bool" where
  "kept h g iter_var n item =
     (case evaluate_value h (set_iteration_context [(iter_var, item)] g) n of
        Inr v \<Rightarrow> truthy v
      | Inl e \<Rightarrow> False)"

text \<open>The function argument of \<open>map\<close> and \<open>for_each\<close>: a string is looked up among the
  attributes of the object, after its leading \<open>@\<close> are removed.\<close>

definition resolve_function :: "host \<Rightarrow> funcarg \<Rightarrow> rgrammar \<Rightarrow> error + callable" where
  "resolve_function h func g =
     (case func of
        FuncCallable f \<Rightarrow> Inr f
      | FuncValue (PStr name) \<Rightarrow>
          (let func_name = lstrip ''@'' name in
           case dsl_attr h g func_name of
             None \<Rightarrow> Inl (ValueError (''Unknown function: '' @ func_name))
           | Some (Callable f) \<Rightarrow> Inr f
           | Some (Plain v) \<Rightarrow>
               Inl (ValueError (''Function must be callable, got '' @ type_name v)))
      | FuncValue v \<Rightarrow> Inl (ValueError (''Function must be callable, got '' @ type_name v)))"

fun map_loop ::
  "string \<Rightarrow> callable \<Rightarrow> pyval list \<Rightarrow> pyval list \<Rightarrow> rgrammar \<Rightarrow> pyval list \<times> rgrammar" where
  "map_loop iter_var func [] mapped g = (mapped, g)"
| "map_loop iter_var func (item # items) mapped g =
     (case func item (set_iteration_context [(iter_var, item)] g) of
        (Inr result, g') \<Rightarrow>
          map_loop iter_var func items (mapped @ [result]) (clear_iteration_context g')
      | (Inl e, g') \<Rightarrow> map_loop iter_var func items mapped (clear_iteration_context g'))"

definition map_method ::
  "host \<Rightarrow> funcarg \<Rightarrow> pyval \<Rightarrow> rgrammar \<Rightarrow> (error + pyval list) \<times> rgrammar" where
  "map_method h func collection g =
     (case resolve_collection collection g of
        (PList actual_collection, iter_var) \<Rightarrow>
          (case resolve_function h func g of
             Inl e \<Rightarrow> (Inl e, g)
           | Inr f \<Rightarrow>
               (case map_loop iter_var f actual_collection [] g of
                  (mapped, g') \<Rightarrow> (Inr mapped, g')))
      | (v, iter_var) \<Rightarrow>
          (Inl (ValueError (''Collection must be a list, got '' @ type_name v)), g))"

fun for_each_loop :: "string \<Rightarrow> callable \<Rightarrow> pyval list \<Rightarrow> rgrammar \<Rightarrow> rgrammar" where
  "for_each_loop iter_var action_func [] g = g"
| "for_each_loop iter_var action_func (item # items) g =
     (case action_func item (set_iteration_context [(iter_var, item)] g) of
        (r, g') \<Rightarrow> for_each_loop iter_var action_func items (clear_iteration_context g'))"

definition for_each ::
  "host \<Rightarrow> pyval \<Rightarrow> funcarg \<Rightarrow> rgrammar \<Rightarrow> rgrammar handler_result" where
  "for_each h collection action_func g =
     (case resolve_collection collection g of
        (PList actual_collection, iter_var) \<Rightarrow>
          (case resolve_function h action_func g of
             Inl e \<Rightarrow> (Some e, g)
           | Inr f \<Rightarrow> (None, for_each_loop iter_var f actual_collection g))
      | (v, iter_var) \<Rightarrow>
          (Some (ValueError (''Collection must be a list, got '' @ type_name v)), g))"

text \<open>
  What the loops write to the logger. Each \<open>except\<close> branch calls \<open>logger.warning\<close> with a
  fixed text followed by the exception; a record of the log is that text and the exception.
  The three functions below follow the three loops item by item and collect the warnings in
  the order in which they are written.
\<close>

type_synonym warning = "string \<times> error"

fun filter_warnings ::
  "host \<Rightarrow> string \<Rightarrow> predicate \<Rightarrow> pyval list \<Rightarrow> rgrammar \<Rightarrow> warning list" where
  "filter_warnings h iter_var pred [] g = []"
| "filter_warnings h iter_var pred (item # items) g =
     (case eval_predicate h pred item (set_iteration_context [(iter_var, item)] g) of
        (Inr result, g') \<Rightarrow> filter_warnings h iter_var pred items (clear_iteration_context g')
      | (Inl e, g') \<Rightarrow>
          (''Error evaluating predicate for item: '', e)
            # filter_warnings h iter_var pred items (clear_iteration_context g'))"

fun map_warnings :: "string \<Rightarrow> callable \<Rightarrow> pyval list \<Rightarrow> rgrammar \<Rightarrow> warning list" where
  "map_warnings iter_var func [] g = []"
| "map_warnings iter_var func (item # items) g =
     (case func item (set_iteration_context [(iter_var, item)] g) of
        (Inr result, g') \<Rightarrow> map_warnings iter_var func items (clear_iteration_context g')
      | (Inl e, g') \<Rightarrow>
          (''Error mapping function over item: '', e)
            # map_warnings iter_var func items (clear_iteration_context g'))"

fun for_each_warnings :: "string \<Rightarrow> callable \<Rightarrow> pyval list \<Rightarrow> rgrammar \<Rightarrow> warning list" where
  "for_each_warnings iter_var action_func [] g = []"
| "for_each_warnings iter_var action_func (item # items) g =
     (case action_func item (set_iteration_context [(iter_var, item)] g) of
        (Inr result, g') \<Rightarrow> for_each_warnings iter_var action_func items (clear_iteration_context g')
      | (Inl e, g') \<Rightarrow>
          (''Error executing action for item: '', e)
            # for_each_warnings iter_var action_func items (clear_iteration_context g'))"

definition store :: "string \<Rightarrow> pyval \<Rightarrow> rgrammar \<Rightarrow> rgrammar" where
  "store name v g = g\<lparr>rf_data := dict_set name v (rf_data g)\<rparr>"

definition get_iter_var_from_collection :: "string \<Rightarrow> string" where
  "get_iter_var_from_collection collection_name =
     (let var = rstrip ''_list'' (rstrip ''_chain'' (rstrip ''s'' collection_name))
      in if var = [] \<or> length var < 2 then ''item'' else var)"


section \<open>The derivation of the iteration variable, as the specification words it\<close>

text \<open>
  Section 4.6 of the spec: strip one trailing \<open>s\<close>, then strip a trailing \<open>_chain\<close> or
  \<open>_list\<close> suffix if present; if the result is empty or shorter than 2, default to
  \<open>item\<close>. This definition follows those words, for comparison with the code.
\<close>

definition strip_suffix :: "string \<Rightarrow> string \<Rightarrow> string" where
  "strip_suffix suf s = (if suffix suf s then take (length s - length suf) s else s)"

definition spec_iter_var :: "string \<Rightarrow> string" where
  "spec_iter_var collection_name =
     (let var = strip_suffix ''s'' collection_name;
          var = (if suffix ''_chain'' var then strip_suffix ''_chain'' var
                 else strip_suffix ''_list'' var)
      in if var = [] \<or> length var < 2 then ''item'' else var)"


text \<open>The object as \<open>ReaperDSLGrammar.__init__\<close> leaves it.\<close>

definition init_rgrammar :: rgrammar where
  "init_rgrammar = \<lparr>rf_current_track_index = -1, rf_track_counter = 0, rf_state = None,
     rf_data = [], rf_actions = [], iteration_context = []\<rparr>"


text \<open>
  A host for the examples: an object with no attributes beyond its data attributes, values
  without attributes, \<open>==\<close> on two values of the same kind, and no other operator.
\<close>

definition example_host :: host where
  "example_host =
     \<lparr>other_attrs = (\<lambda>name. None),
      value_attr = (\<lambda>v name. None),
      binop = (\<lambda>op a b. if op = ''=='' then Inr (PBool (a = b)) else Inl TypeError),
      evaluate_other = (\<lambda>v g. Inr v)\<rparr>"


section \<open>\<open>dsl_functional_examples.py\<close>: the example snapshot\<close>

text \<open>The constant \<open>REAPER_STATE\<close>: three tracks, the second one selected.\<close>

definition REAPER_STATE :: pydict where
  "REAPER_STATE =
     [(''state'', PDict
        [(''tracks'', PList
           [PDict [(''index'', PInt 0), (''name'', PStr ''Drums''), (''selected'', PBool False),
                   (''fx'', PList [PDict [(''name'', PStr ''ReaEQ''), (''enabled'', PBool True)],
                                   PDict [(''name'', PStr ''ReaComp''), (''enabled'', PBool False)]]),
                   (''clips'', PList
                      [PDict [(''start'', PFloat 0.0), (''length'', PFloat 4.0), (''name'', PStr ''Kick'')],
                       PDict [(''start'', PFloat 4.0), (''length'', PFloat 4.0), (''name'', PStr ''Snare'')]])],
            PDict [(''index'', PInt 1), (''name'', PStr ''FX''), (''selected'', PBool True),
                   (''fx'', PList [PDict [(''name'', PStr ''ReaVerb''), (''enabled'', PBool True)]]),
                   (''clips'', PList [])],
            PDict [(''index'', PInt 2), (''name'', PStr ''Bass''), (''selected'', PBool False),
                   (''fx'', PList []),
                   (''clips'', PList
                      [PDict [(''start'', PFloat 0.0), (''length'', PFloat 8.0),
                              (''name'', PStr ''BassLine'')]])]])])]"


text \<open>The function \<open>get_name\<close> of \<open>example_map_over_tracks\<close>, \<open>track["name"]\<close>: a
  dict without the key raises \<open>KeyError\<close>, and no other value can be indexed by a string.\<close>

fun get_name :: callable where
  "get_name (PDict d) g =
     (case map_of d ''name'' of None \<Rightarrow> (Inl KeyError, g) | Some v \<Rightarrow> (Inr v, g))"
| "get_name v g = (Inl TypeError, g)"


text \<open>
  Inputs for the examples: the predicate \<open>track.name == "FX"\<close> of the docstring of
  \<open>filter\<close>, and an object whose \<open>data\<close> holds under \<open>tracks\<close> two tracks and, between
  them, an item that is no track.
\<close>

definition name_is_FX :: node where
  "name_is_FX =
     Expression (PropertyAccess ''track'' [''name'']) (Some ''=='') (Some (Value (PStr ''FX'')))"

definition example_items :: "pyval list" where
  "example_items = [PDict [(''name'', PStr ''FX'')], PInt 7, PDict [(''name'', PStr ''Bass'')]]"

definition example_rgrammar :: rgrammar where
  "example_rgrammar = store ''tracks'' (PList example_items) init_rgrammar"


text \<open>
  The function \<open>add_fx\<close> of \<open>example_for_each_with_side_effects\<close>: it appends
  \<open>{"action": "add_track_fx", "track": track["index"], "fxname": "ReaVerb"}\<close> to a list of
  actions, here the \<open>_actions\<close> of the object, and returns \<open>None\<close>.
\<close>

fun example_add_fx :: callable where
  "example_add_fx (PDict d) g =
     (case map_of d ''index'' of
        None \<Rightarrow> (Inl KeyError, g)
      | Some i \<Rightarrow>
          (Inr PNone,
           g\<lparr>rf_actions := rf_actions g @
              [[(''action'', PStr ''add_track_fx''), (''track'', i), (''fxname'', PStr ''ReaVerb'')]]\<rparr>))"
| "example_add_fx v g = (Inl TypeError, g)"


section \<open>Auxiliary facts\<close>

lemma selected_REAPER_STATE: "get_selected_track_index (Some REAPER_STATE) = Inr 1"
  by (simp add: REAPER_STATE_def dict_get_default_def)

lemma map_of_dict_set: "map_of (dict_set k v d) k = Some v"
  by (induction d) auto

lemma map_of_dict_set_other: "k' \<noteq> k \<Longrightarrow> map_of (dict_set k v d) k' = map_of d k'"
  by (induction d) auto

lemmas setter_defs = set_track_field_def set_volume_def set_pan_def set_mute_def
  set_solo_def set_name_def

lemmas ap_setter_defs = ap_set_track_field_def ap_set_volume_def ap_set_pan_def ap_set_mute_def
  ap_set_solo_def ap_set_name_def

lemma clip_action_track:
  "clip_action i bar start lb l pos = Inr a \<Longrightarrow> map_of a ''track'' = Some (PInt i)"
  by (auto simp: clip_action_def Let_def split: option.splits)

lemma clip_action_anchor:
  "bar \<noteq> None \<or> start \<noteq> None \<or> pos \<noteq> None \<Longrightarrow> \<exists>a. clip_action i bar start lb l pos = Inr a"
  by (auto simp: clip_action_def Let_def split: option.splits)

lemma clip_action_no_end:
  "clip_action i bar start lb l pos = Inr a \<Longrightarrow> map_of a ''end'' = None"
  by (auto simp: clip_action_def Let_def split: option.splits)

lemma ap_clip_action_track:
  "ap_clip_action i bar start lb l pos = Inr a \<Longrightarrow> map_of (payload a) ''track'' = Some (PInt i)"
  by (auto simp: ap_clip_action_def Let_def split: option.splits)

lemma ap_clip_action_anchor:
  "bar \<noteq> None \<or> start \<noteq> None \<or> pos \<noteq> None \<Longrightarrow> \<exists>a. ap_clip_action i bar start lb l pos = Inr a"
  by (auto simp: ap_clip_action_def Let_def split: option.splits)

lemma ap_clip_action_no_end:
  "ap_clip_action i bar start lb l pos = Inr a \<Longrightarrow> map_of (payload a) ''end'' = None"
  by (auto simp: ap_clip_action_def Let_def split: option.splits)

lemma new_clip_fallback:
  assumes "current_track_index g < 0" "get_selected_track_index (state g) = Inr i" "0 \<le> i"
    "bar \<noteq> None \<or> start \<noteq> None \<or> pos \<noteq> None"
  shows "\<exists>a. new_clip bar start end' lb l pos g = (None, g\<lparr>actions := actions g @ [a]\<rparr>)
           \<and> map_of a ''track'' = Some (PInt i)"
proof -
  from assms(4) obtain a where a: "clip_action i bar start lb l pos = Inr a"
    using clip_action_anchor by blast
  with assms(1-3) have "new_clip bar start end' lb l pos g = (None, g\<lparr>actions := actions g @ [a]\<rparr>)"
    by (simp add: new_clip_def)
  with clip_action_track[OF a] show ?thesis by blast
qed

lemma ap_new_clip_fallback:
  assumes "ap_current_track_index g < 0" "get_selected_track_index (ap_state g) = Inr i" "0 \<le> i"
    "bar \<noteq> None \<or> start \<noteq> None \<or> pos \<noteq> None"
  shows "\<exists>a. ap_new_clip bar start end' lb l pos g = (None, emit_action a g)
           \<and> map_of (payload a) ''track'' = Some (PInt i)"
proof -
  from assms(4) obtain a where a: "ap_clip_action i bar start lb l pos = Inr a"
    using ap_clip_action_anchor by blast
  with assms(1-3) have "ap_new_clip bar start end' lb l pos g = (None, emit_action a g)"
    by (simp add: ap_new_clip_def)
  with ap_clip_action_track[OF a] show ?thesis by blast
qed

lemma emit_action_track [simp]:
  "ap_current_track_index (emit_action a g) = ap_current_track_index g"
  by (simp add: emit_action_def split: option.splits)

lemma selected_in_tracks_error:
  "selected_in_tracks v = Inl e \<Longrightarrow> e = TypeError"
  by (cases v) auto

lemma get_selected_track_index_error:
  "get_selected_track_index st = Inl e \<Longrightarrow> e = TypeError \<or> e = AttributeError"
  by (cases st) (auto split: pyval.splits dest: selected_in_tracks_error)

lemma exec_call_counter:
  "exec_call c g = (None, g') \<Longrightarrow> \<not> is_indexed_creation c \<Longrightarrow>
   track_counter g' = track_counter g + (if is_plain_creation c then 1 else 0)"
proof (cases c)
  case (Track instrument name index id' selected)
  then show "exec_call c g = (None, g') \<Longrightarrow> \<not> is_indexed_creation c \<Longrightarrow> ?thesis"
    by (cases index; cases id')
       (auto simp: track_def Let_def split: sum.splits if_splits)
qed (auto simp: new_clip_def add_midi_def add_fx_def setter_defs Let_def
      split: sum.splits if_splits option.splits)

lemma run_counter:
  "run pre g = (None, g') \<Longrightarrow> list_all (\<lambda>c. \<not> is_indexed_creation c) pre \<Longrightarrow>
   track_counter g' = track_counter g + int (length (filter is_plain_creation pre))"
proof (induction pre arbitrary: g)
  case Nil
  then show ?case by simp
next
  case (Cons c cs)
  from Cons.prems(1) obtain g1 where c: "exec_call c g = (None, g1)" and r: "run cs g1 = (None, g')"
    by (auto split: prod.splits option.splits)
  from Cons.prems(2) have nc: "\<not> is_indexed_creation c" and ncs: "list_all (\<lambda>c. \<not> is_indexed_creation c) cs"
    by simp_all
  from exec_call_counter[OF c nc] Cons.IH[OF r ncs] show ?case by simp
qed

lemma plain_creation_binds:
  "is_plain_creation c \<Longrightarrow>
   \<exists>a. exec_call c g = (None, g\<lparr>track_counter := track_counter g + 1,
                       current_track_index := track_counter g, actions := actions g @ [a]\<rparr>)
       \<and> map_of a ''index'' = Some (PInt (track_counter g))"
  by (cases c rule: is_plain_creation.cases)
     (auto simp: track_def Let_def map_of_dict_set)

lemma indexed_creation_binds:
  "selected \<noteq> Some True \<Longrightarrow>
   \<exists>a. track instrument name (Some k) None selected g =
         (None, g\<lparr>track_counter := k + 1, current_track_index := k, actions := actions g @ [a]\<rparr>)
       \<and> map_of a ''index'' = Some (PInt k)"
  by (auto simp: track_def Let_def map_of_dict_set)



section \<open>Properties of the handlers\<close>

text \<open>
  Claim C1, as amended. The claim says that every track-scoped operation falls back to the
  snapshot's selected track when no track is bound. Only \<open>new_clip\<close> does: with no track
  bound it uses the selected index, and it raises \<open>No track context for clip call and no
  selected track found\<close> exactly when the snapshot yields no selected track. The other
  operations (\<open>add_midi\<close>, \<open>add_fx\<close>, \<open>set_volume\<close>, \<open>set_pan\<close>, \<open>set_mute\<close>,
  \<open>set_solo\<close>, \<open>set_name\<close>) never consult the snapshot: with no track bound they raise
  their own \<open>No track context\<close> error and leave the object unchanged.
\<close>

theorem track_binding_fallback:
  assumes "current_track_index g < 0"
  shows "(get_selected_track_index (state g) = Inr i \<and> 0 \<le> i
            \<and> (bar \<noteq> None \<or> start \<noteq> None \<or> position \<noteq> None) \<longrightarrow>
          (\<exists>a. new_clip bar start end' length_bars length' position g =
                  (None, g\<lparr>actions := actions g @ [a]\<rparr>)
              \<and> map_of a ''track'' = Some (PInt i)))
       \<and> (fst (new_clip bar start end' length_bars length' position g) =
            Some (ValueError ''No track context for clip call and no selected track found'')
          \<longleftrightarrow> (\<exists>j. j < 0 \<and> get_selected_track_index (state g) = Inr j))
       \<and> add_midi notes note g = (Some (ValueError ''No track context for midi call''), g)
       \<and> add_fx fxname instrument g = (Some (ValueError ''No track context for FX call''), g)
       \<and> set_volume volume_db g = (Some (ValueError ''No track context for volume call''), g)
       \<and> set_pan pan g = (Some (ValueError ''No track context for pan call''), g)
       \<and> set_mute mute g = (Some (ValueError ''No track context for mute call''), g)
       \<and> set_solo solo g = (Some (ValueError ''No track context for solo call''), g)
       \<and> set_name name g = (Some (ValueError ''No track context for name call''), g)"
proof (intro conjI impI)
  assume "get_selected_track_index (state g) = Inr i \<and> 0 \<le> i
            \<and> (bar \<noteq> None \<or> start \<noteq> None \<or> position \<noteq> None)"
  with assms show "\<exists>a. new_clip bar start end' length_bars length' position g =
                  (None, g\<lparr>actions := actions g @ [a]\<rparr>)
              \<and> map_of a ''track'' = Some (PInt i)"
    using new_clip_fallback by blast
next
  show "fst (new_clip bar start end' length_bars length' position g) =
            Some (ValueError ''No track context for clip call and no selected track found'')
          \<longleftrightarrow> (\<exists>j. j < 0 \<and> get_selected_track_index (state g) = Inr j)"
    using assms
    by (cases "get_selected_track_index (state g)")
       (auto simp: new_clip_def clip_action_def Let_def
             dest: get_selected_track_index_error split: option.splits)
qed (use assms in \<open>simp_all add: add_midi_def add_fx_def setter_defs\<close>)

theorem track_binding_fallback_witness:
  "current_track_index (set_state REAPER_STATE init_grammar) < 0
   \<and> get_selected_track_index (state (set_state REAPER_STATE init_grammar)) = Inr 1
   \<and> (\<exists>a. new_clip (Some 3) None None None None None (set_state REAPER_STATE init_grammar) =
            (None, (set_state REAPER_STATE init_grammar)\<lparr>actions := [a]\<rparr>)
          \<and> map_of a ''track'' = Some (PInt 1))
   \<and> fst (new_clip (Some 3) None None None None None init_grammar) =
        Some (ValueError ''No track context for clip call and no selected track found'')
   \<and> add_fx (Some ''ReaEQ'') None (set_state REAPER_STATE init_grammar) =
        (Some (ValueError ''No track context for FX call''), set_state REAPER_STATE init_grammar)
   \<and> set_volume (- 3) (set_state REAPER_STATE init_grammar) =
        (Some (ValueError ''No track context for volume call''), set_state REAPER_STATE init_grammar)"
proof -
  let ?g = "set_state REAPER_STATE init_grammar"
  have c: "current_track_index ?g < 0" and c0: "current_track_index init_grammar < 0"
    by (simp_all add: set_state_def init_grammar_def)
  have s: "get_selected_track_index (state ?g) = Inr 1"
    using selected_REAPER_STATE by (simp add: set_state_def)
  have s0: "get_selected_track_index (state init_grammar) = Inr (- 1)"
    by (simp add: init_grammar_def)
  have a: "actions ?g = []" by (simp add: set_state_def init_grammar_def)
  from track_binding_fallback[OF c, where i = 1 and bar = "Some 3" and start = None
      and position = None and end' = None and length_bars = None and length' = None
      and fxname = "Some ''ReaEQ''" and instrument = None and volume_db = "- 3"] s a
  have 1: "(\<exists>a. new_clip (Some 3) None None None None None ?g = (None, ?g\<lparr>actions := [a]\<rparr>)
          \<and> map_of a ''track'' = Some (PInt 1))
     \<and> add_fx (Some ''ReaEQ'') None ?g = (Some (ValueError ''No track context for FX call''), ?g)
     \<and> set_volume (- 3) ?g = (Some (ValueError ''No track context for volume call''), ?g)"
    by simp
  from track_binding_fallback[OF c0, where bar = "Some 3" and start = None
      and position = None and end' = None and length_bars = None and length' = None] s0
  have 2: "fst (new_clip (Some 3) None None None None None init_grammar) =
        Some (ValueError ''No track context for clip call and no selected track found'')"
    by simp
  from c s 1 2 show ?thesis by blast
qed


text \<open>
  Claim C1 as stated fails: with no track bound and the second track of \<open>REAPER_STATE\<close>
  selected, \<open>add_midi\<close> raises instead of using the selected track.
\<close>

theorem add_midi_no_fallback_counterexample:
  "current_track_index (set_state REAPER_STATE init_grammar) = - 1
   \<and> get_selected_track_index (state (set_state REAPER_STATE init_grammar)) = Inr 1
   \<and> add_midi None None (set_state REAPER_STATE init_grammar) =
       (Some (ValueError ''No track context for midi call''), set_state REAPER_STATE init_grammar)"
  using selected_REAPER_STATE by (simp add: set_state_def init_grammar_def add_midi_def)


text \<open>
  Claim C5. The track counter starts at 0. In a program that ran without error and made no
  creation call with an explicit index, a creation call without index binds the number of
  such calls before it, emits that number as the index and leaves the counter one above it:
  the Nth such call binds N-1. A creation call with explicit index \<open>k\<close> binds \<open>k\<close> and sets
  the counter to \<open>k+1\<close>, and a plain creation call that follows binds \<open>k+1\<close>.
\<close>

theorem track_creation_counter:
  "track_counter (reset g0) = 0 \<and>
   (run pre (reset g0) = (None, g) \<and> list_all (\<lambda>c. \<not> is_indexed_creation c) pre
      \<and> is_plain_creation c \<longrightarrow>
    (\<exists>a. exec_call c g =
            (None, g\<lparr>track_counter := int (length (filter is_plain_creation pre)) + 1,
                     current_track_index := int (length (filter is_plain_creation pre)),
                     actions := actions g @ [a]\<rparr>)
        \<and> map_of a ''index'' = Some (PInt (int (length (filter is_plain_creation pre)))))) \<and>
   (selected \<noteq> Some True \<and> is_plain_creation c' \<longrightarrow>
    (\<exists>a b. track instrument name (Some k) None selected g1 =
              (None, g1\<lparr>track_counter := k + 1, current_track_index := k,
                        actions := actions g1 @ [a]\<rparr>)
          \<and> map_of a ''index'' = Some (PInt k)
          \<and> exec_call c' (g1\<lparr>track_counter := k + 1, current_track_index := k,
                               actions := actions g1 @ [a]\<rparr>) =
              (None, g1\<lparr>track_counter := k + 2, current_track_index := k + 1,
                        actions := actions g1 @ [a, b]\<rparr>)
          \<and> map_of b ''index'' = Some (PInt (k + 1))))"
proof (intro conjI impI)
  show "track_counter (reset g0) = 0" by (simp add: reset_def)
next
  assume a: "run pre (reset g0) = (None, g) \<and> list_all (\<lambda>c. \<not> is_indexed_creation c) pre
      \<and> is_plain_creation c"
  let ?n = "int (length (filter is_plain_creation pre))"
  from a have "track_counter g = track_counter (reset g0) + ?n"
    using run_counter by blast
  then have n: "track_counter g = ?n" by (simp add: reset_def)
  from a plain_creation_binds[of c g] n
  show "\<exists>a. exec_call c g =
            (None, g\<lparr>track_counter := ?n + 1, current_track_index := ?n, actions := actions g @ [a]\<rparr>)
        \<and> map_of a ''index'' = Some (PInt ?n)"
    by simp
next
  assume a: "selected \<noteq> Some True \<and> is_plain_creation c'"
  then obtain x where x: "track instrument name (Some k) None selected g1 =
         (None, g1\<lparr>track_counter := k + 1, current_track_index := k, actions := actions g1 @ [x]\<rparr>)"
       "map_of x ''index'' = Some (PInt k)"
    using indexed_creation_binds[of selected instrument name k g1] by blast
  let ?g = "g1\<lparr>track_counter := k + 1, current_track_index := k, actions := actions g1 @ [x]\<rparr>"
  from a obtain y where y: "exec_call c' ?g = (None, ?g\<lparr>track_counter := track_counter ?g + 1,
                       current_track_index := track_counter ?g, actions := actions ?g @ [y]\<rparr>)"
       "map_of y ''index'' = Some (PInt (track_counter ?g))"
    using plain_creation_binds[of c' ?g] by blast
  from x y show "\<exists>a b. track instrument name (Some k) None selected g1 =
              (None, g1\<lparr>track_counter := k + 1, current_track_index := k,
                        actions := actions g1 @ [a]\<rparr>)
          \<and> map_of a ''index'' = Some (PInt k)
          \<and> exec_call c' (g1\<lparr>track_counter := k + 1, current_track_index := k,
                               actions := actions g1 @ [a]\<rparr>) =
              (None, g1\<lparr>track_counter := k + 2, current_track_index := k + 1,
                        actions := actions g1 @ [a, b]\<rparr>)
          \<and> map_of b ''index'' = Some (PInt (k + 1))"
    by (intro exI[of _ x] exI[of _ y]) (simp add: add.assoc)
qed

theorem track_creation_counter_witness:
  "run [Track (Some ''Serum'') None None None None, SetVolume (-3),
        Track None (Some ''Bass'') None None None] (reset init_grammar) =
     (None, \<lparr>actions =
        [[(''action'', PStr ''create_track''), (''instrument'', PStr ''Serum''), (''index'', PInt 0)],
         [(''action'', PStr ''set_track_volume''), (''track'', PInt 0), (''volume_db'', PFloat (- 3))],
         [(''action'', PStr ''create_track''), (''name'', PStr ''Bass''), (''index'', PInt 1)]],
        current_track_index = 1, track_counter = 2, state = None\<rparr>)
   \<and> (\<exists>a. exec_call (Track None None None None None)
        \<lparr>actions =
        [[(''action'', PStr ''create_track''), (''instrument'', PStr ''Serum''), (''index'', PInt 0)],
         [(''action'', PStr ''set_track_volume''), (''track'', PInt 0), (''volume_db'', PFloat (- 3))],
         [(''action'', PStr ''create_track''), (''name'', PStr ''Bass''), (''index'', PInt 1)]],
        current_track_index = 1, track_counter = 2, state = None\<rparr> =
      (None, \<lparr>actions =
        [[(''action'', PStr ''create_track''), (''instrument'', PStr ''Serum''), (''index'', PInt 0)],
         [(''action'', PStr ''set_track_volume''), (''track'', PInt 0), (''volume_db'', PFloat (- 3))],
         [(''action'', PStr ''create_track''), (''name'', PStr ''Bass''), (''index'', PInt 1)], a],
        current_track_index = 2, track_counter = 3, state = None\<rparr>)
      \<and> map_of a ''index'' = Some (PInt 2))
   \<and> (\<exists>a b. track None None (Some 5) None None init_grammar =
         (None, \<lparr>actions = [a], current_track_index = 5, track_counter = 6, state = None\<rparr>)
       \<and> exec_call (Track None None None None None)
           \<lparr>actions = [a], current_track_index = 5, track_counter = 6, state = None\<rparr> =
         (None, \<lparr>actions = [a, b], current_track_index = 6, track_counter = 7, state = None\<rparr>)
       \<and> map_of b ''index'' = Some (PInt 6))"
proof -
  let ?pre = "[Track (Some ''Serum'') None None None None, SetVolume (-3),
        Track None (Some ''Bass'') None None None]"
  let ?g = "\<lparr>actions =
        [[(''action'', PStr ''create_track''), (''instrument'', PStr ''Serum''), (''index'', PInt 0)],
         [(''action'', PStr ''set_track_volume''), (''track'', PInt 0), (''volume_db'', PFloat (- 3))],
         [(''action'', PStr ''create_track''), (''name'', PStr ''Bass''), (''index'', PInt 1)]],
        current_track_index = 1, track_counter = 2, state = None\<rparr>"
  have r: "run ?pre (reset init_grammar) = (None, ?g)"
    by (simp add: reset_def init_grammar_def track_def opt_entry_def setter_defs)
  have n: "int (length (filter is_plain_creation ?pre)) = 2" by simp
  have p: "list_all (\<lambda>c. \<not> is_indexed_creation c) ?pre" by simp
  note t = track_creation_counter[of init_grammar ?pre ?g "Track None None None None None"
      "None" "Track None None None None None" None None 5 init_grammar]
  from t r p have 1: "\<exists>a. exec_call (Track None None None None None) ?g =
            (None, ?g\<lparr>track_counter := int (length (filter is_plain_creation ?pre)) + 1,
                     current_track_index := int (length (filter is_plain_creation ?pre)),
                     actions := actions ?g @ [a]\<rparr>)
        \<and> map_of a ''index'' = Some (PInt (int (length (filter is_plain_creation ?pre))))"
    by simp
  from t have 2: "\<exists>a b. track None None (Some 5) None None init_grammar =
              (None, init_grammar\<lparr>track_counter := 5 + 1, current_track_index := 5,
                        actions := actions init_grammar @ [a]\<rparr>)
          \<and> map_of a ''index'' = Some (PInt 5)
          \<and> exec_call (Track None None None None None)
               (init_grammar\<lparr>track_counter := 5 + 1, current_track_index := 5,
                               actions := actions init_grammar @ [a]\<rparr>) =
              (None, init_grammar\<lparr>track_counter := 5 + 2, current_track_index := 5 + 1,
                        actions := actions init_grammar @ [a, b]\<rparr>)
          \<and> map_of b ''index'' = Some (PInt (5 + 1))"
    by simp
  from 1 have e1: "\<exists>a. exec_call (Track None None None None None) ?g =
      (None, \<lparr>actions =
        [[(''action'', PStr ''create_track''), (''instrument'', PStr ''Serum''), (''index'', PInt 0)],
         [(''action'', PStr ''set_track_volume''), (''track'', PInt 0), (''volume_db'', PFloat (- 3))],
         [(''action'', PStr ''create_track''), (''name'', PStr ''Bass''), (''index'', PInt 1)], a],
        current_track_index = 2, track_counter = 3, state = None\<rparr>)
      \<and> map_of a ''index'' = Some (PInt 2)"
    unfolding n by simp
  from 2 have e2: "\<exists>a b. track None None (Some 5) None None init_grammar =
         (None, \<lparr>actions = [a], current_track_index = 5, track_counter = 6, state = None\<rparr>)
       \<and> exec_call (Track None None None None None)
           \<lparr>actions = [a], current_track_index = 5, track_counter = 6, state = None\<rparr> =
         (None, \<lparr>actions = [a, b], current_track_index = 6, track_counter = 7, state = None\<rparr>)
       \<and> map_of b ''index'' = Some (PInt 6)"
    by (simp add: init_grammar_def) blast
  from r e1 e2 show ?thesis by blast
qed



text \<open>
  Claim C6. On a bound track \<open>new_clip\<close> appends exactly one action: with \<open>bar\<close> it is
  \<open>create_clip_at_bar\<close> with the track, the bar and \<open>length_bars\<close> (4 when not given),
  whatever \<open>start\<close> and \<open>position\<close> are; without \<open>bar\<close>, with \<open>start\<close> or with
  \<open>position\<close>, it is \<open>create_clip\<close> with the track, the position and \<open>length\<close> (4.0
  when not given); with none of the three it raises and appends nothing.
\<close>

theorem new_clip_on_bound_track:
  assumes "0 \<le> current_track_index g"
  shows "new_clip (Some b) start end' length_bars length' position g =
           (None, g\<lparr>actions := actions g @
              [[(''track'', PInt (current_track_index g)),
                (''action'', PStr ''create_clip_at_bar''),
                (''bar'', PInt b),
                (''length_bars'', PInt (case length_bars of None \<Rightarrow> 4 | Some n \<Rightarrow> n))]]\<rparr>)
       \<and> new_clip None (Some s) end' length_bars length' position g =
           (None, g\<lparr>actions := actions g @
              [[(''track'', PInt (current_track_index g)),
                (''action'', PStr ''create_clip''),
                (''position'', PFloat s),
                (''length'', PFloat (case length' of None \<Rightarrow> 4 | Some x \<Rightarrow> x))]]\<rparr>)
       \<and> new_clip None None end' length_bars length' (Some p) g =
           (None, g\<lparr>actions := actions g @
              [[(''track'', PInt (current_track_index g)),
                (''action'', PStr ''create_clip''),
                (''position'', PFloat p),
                (''length'', PFloat (case length' of None \<Rightarrow> 4 | Some x \<Rightarrow> x))]]\<rparr>)
       \<and> new_clip None None end' length_bars length' None g =
           (Some (ValueError ''clip call must specify bar, start, or position''), g)"
  using assms by (simp add: new_clip_def clip_action_def opt_int_def opt_float_def)

theorem new_clip_on_bound_track_witness:
  "new_clip (Some 3) None None (Some 4) None None
     \<lparr>actions = [], current_track_index = 0, track_counter = 1, state = None\<rparr> =
     (None, \<lparr>actions = [[(''track'', PInt 0), (''action'', PStr ''create_clip_at_bar''),
                          (''bar'', PInt 3), (''length_bars'', PInt 4)]],
             current_track_index = 0, track_counter = 1, state = None\<rparr>)
   \<and> new_clip None (Some 2.0) None (Some 4) None None
     \<lparr>actions = [], current_track_index = 0, track_counter = 1, state = None\<rparr> =
     (None, \<lparr>actions = [[(''track'', PInt 0), (''action'', PStr ''create_clip''),
                          (''position'', PFloat 2.0), (''length'', PFloat 4.0)]],
             current_track_index = 0, track_counter = 1, state = None\<rparr>)"
  using new_clip_on_bound_track
    [of "\<lparr>actions = [], current_track_index = 0, track_counter = 1, state = None\<rparr>"
        3 None None "Some 4" None None 2]
  by simp


text \<open>
  Claim C9. When \<open>new_clip\<close> resolves its track by the selected-track fallback, the selected
  index goes into the one action it emits and nowhere else: \<open>current_track_index\<close> stays as
  it was, below 0, so that \<open>add_midi\<close> or \<open>set_volume\<close> called next still raise
  \<open>No track context\<close>. Both parser classes behave so.
\<close>

theorem new_clip_fallback_keeps_unbound:
  "(current_track_index g < 0 \<and> get_selected_track_index (state g) = Inr i \<and> 0 \<le> i
      \<and> (bar \<noteq> None \<or> start \<noteq> None \<or> position \<noteq> None) \<longrightarrow>
    (\<exists>a. new_clip bar start end' length_bars length' position g =
            (None, g\<lparr>actions := actions g @ [a]\<rparr>)
        \<and> map_of a ''track'' = Some (PInt i)
        \<and> current_track_index (g\<lparr>actions := actions g @ [a]\<rparr>) = current_track_index g
        \<and> add_midi notes note (g\<lparr>actions := actions g @ [a]\<rparr>) =
            (Some (ValueError ''No track context for midi call''), g\<lparr>actions := actions g @ [a]\<rparr>)
        \<and> set_volume volume_db (g\<lparr>actions := actions g @ [a]\<rparr>) =
            (Some (ValueError ''No track context for volume call''),
             g\<lparr>actions := actions g @ [a]\<rparr>)))
   \<and> (ap_current_track_index ag < 0 \<and> get_selected_track_index (ap_state ag) = Inr i \<and> 0 \<le> i
      \<and> (bar \<noteq> None \<or> start \<noteq> None \<or> position \<noteq> None) \<longrightarrow>
    (\<exists>a. ap_new_clip bar start end' length_bars length' position ag = (None, emit_action a ag)
        \<and> map_of (payload a) ''track'' = Some (PInt i)
        \<and> ap_current_track_index (emit_action a ag) = ap_current_track_index ag
        \<and> ap_add_midi notes note (emit_action a ag) =
            (Some (ValueError ''No track context for midi call''), emit_action a ag)
        \<and> ap_set_volume volume_db (emit_action a ag) =
            (Some (ValueError ''No track context for volume call''), emit_action a ag)))"
proof (intro conjI impI)
  assume h: "current_track_index g < 0 \<and> get_selected_track_index (state g) = Inr i \<and> 0 \<le> i
      \<and> (bar \<noteq> None \<or> start \<noteq> None \<or> position \<noteq> None)"
  then obtain a where a: "new_clip bar start end' length_bars length' position g =
            (None, g\<lparr>actions := actions g @ [a]\<rparr>)" "map_of a ''track'' = Some (PInt i)"
    using new_clip_fallback[of g i bar start position end' length_bars length'] by blast
  from h have "add_midi notes note (g\<lparr>actions := actions g @ [a]\<rparr>) =
            (Some (ValueError ''No track context for midi call''), g\<lparr>actions := actions g @ [a]\<rparr>)"
    and "set_volume volume_db (g\<lparr>actions := actions g @ [a]\<rparr>) =
            (Some (ValueError ''No track context for volume call''),
             g\<lparr>actions := actions g @ [a]\<rparr>)"
    by (simp_all add: add_midi_def setter_defs)
  with a show "\<exists>a. new_clip bar start end' length_bars length' position g =
            (None, g\<lparr>actions := actions g @ [a]\<rparr>)
        \<and> map_of a ''track'' = Some (PInt i)
        \<and> current_track_index (g\<lparr>actions := actions g @ [a]\<rparr>) = current_track_index g
        \<and> add_midi notes note (g\<lparr>actions := actions g @ [a]\<rparr>) =
            (Some (ValueError ''No track context for midi call''), g\<lparr>actions := actions g @ [a]\<rparr>)
        \<and> set_volume volume_db (g\<lparr>actions := actions g @ [a]\<rparr>) =
            (Some (ValueError ''No track context for volume call''),
             g\<lparr>actions := actions g @ [a]\<rparr>)"
    by (intro exI[of _ a]) simp
next
  assume h: "ap_current_track_index ag < 0 \<and> get_selected_track_index (ap_state ag) = Inr i \<and> 0 \<le> i
      \<and> (bar \<noteq> None \<or> start \<noteq> None \<or> position \<noteq> None)"
  then obtain a where a: "ap_new_clip bar start end' length_bars length' position ag =
            (None, emit_action a ag)" "map_of (payload a) ''track'' = Some (PInt i)"
    using ap_new_clip_fallback[of ag i bar start position end' length_bars length'] by blast
  from h have "ap_add_midi notes note (emit_action a ag) =
            (Some (ValueError ''No track context for midi call''), emit_action a ag)"
    and "ap_set_volume volume_db (emit_action a ag) =
            (Some (ValueError ''No track context for volume call''), emit_action a ag)"
    by (simp_all add: ap_add_midi_def ap_setter_defs)
  with a show "\<exists>a. ap_new_clip bar start end' length_bars length' position ag = (None, emit_action a ag)
        \<and> map_of (payload a) ''track'' = Some (PInt i)
        \<and> ap_current_track_index (emit_action a ag) = ap_current_track_index ag
        \<and> ap_add_midi notes note (emit_action a ag) =
            (Some (ValueError ''No track context for midi call''), emit_action a ag)
        \<and> ap_set_volume volume_db (emit_action a ag) =
            (Some (ValueError ''No track context for volume call''), emit_action a ag)"
    by (intro exI[of _ a]) simp
qed


text \<open>
  Claim C10. \<open>new_clip\<close> never reads its argument \<open>end\<close>: two calls that differ in it only
  give the same result and the same object, in both parser classes, and the action emitted,
  if any, has no entry \<open>end\<close>.
\<close>

theorem new_clip_end_ignored:
  "new_clip bar start end1 length_bars length' position g =
     new_clip bar start end2 length_bars length' position g
   \<and> ap_new_clip bar start end1 length_bars length' position ag =
     ap_new_clip bar start end2 length_bars length' position ag
   \<and> (new_clip bar start end1 length_bars length' position g = (r, g') \<longrightarrow>
        g' = g \<or> (\<exists>a. g' = g\<lparr>actions := actions g @ [a]\<rparr> \<and> map_of a ''end'' = None))
   \<and> (ap_new_clip bar start end1 length_bars length' position ag = (ar, ag') \<longrightarrow>
        ag' = ag \<or> (\<exists>a. ag' = emit_action a ag \<and> map_of (payload a) ''end'' = None))"
proof (intro conjI impI)
  assume "new_clip bar start end1 length_bars length' position g = (r, g')"
  then show "g' = g \<or> (\<exists>a. g' = g\<lparr>actions := actions g @ [a]\<rparr> \<and> map_of a ''end'' = None)"
    by (auto simp: new_clip_def split: sum.splits if_splits dest: clip_action_no_end)
next
  assume "ap_new_clip bar start end1 length_bars length' position ag = (ar, ag')"
  then show "ag' = ag \<or> (\<exists>a. ag' = emit_action a ag \<and> map_of (payload a) ''end'' = None)"
    by (auto simp: ap_new_clip_def split: sum.splits if_splits dest: ap_clip_action_no_end)
qed (simp_all add: new_clip_def ap_new_clip_def)


section \<open>The iteration variable\<close>

text \<open>
  Claim C2. The code derives the variable with \<open>rstrip\<close>, which removes a set of trailing
  characters and not a suffix: for the collection name \<open>plugins\<close> both the helper and the
  combinators give \<open>plug\<close>, where the rule of the specification gives \<open>plugin\<close>.
\<close>

theorem iter_var_plugins:
  "get_iter_var_from_collection ''plugins'' = ''plug''
   \<and> snd (resolve_collection (PStr ''plugins'') g) = ''plug''
   \<and> spec_iter_var ''plugins'' = ''plugin''"
  by (simp add: get_iter_var_from_collection_def resolve_collection_def rstrip_def
        spec_iter_var_def strip_suffix_def suffix_def)

text \<open>On the four examples of the docstring the code and the rule agree.\<close>

lemma iter_var_examples:
  "map get_iter_var_from_collection [''tracks'', ''fx_chain'', ''clips'', ''items''] =
     [''track'', ''fx'', ''clip'', ''item'']
   \<and> map spec_iter_var [''tracks'', ''fx_chain'', ''clips'', ''items''] =
     [''track'', ''fx'', ''clip'', ''item'']"
  by (simp add: get_iter_var_from_collection_def rstrip_def
        spec_iter_var_def strip_suffix_def suffix_def)


section \<open>The action sink\<close>

lemma emit_action_sink: "action_sink (emit_action a g) = action_sink g @ [a]"
  by (simp add: emit_action_def action_sink_def execute_def split: option.splits)

lemma emit_action_config [simp]:
  "ap_interpreter_dsl_runtime (emit_action a g) = ap_interpreter_dsl_runtime g"
  "ap_runtime g = Some collected \<Longrightarrow> ap_runtime (emit_action a g) = Some (collected @ [a])"
  by (simp_all add: emit_action_def execute_def split: option.splits)

lemma ap_track_sink:
  "ap_track instrument name index id' selected g = (r, g') \<Longrightarrow>
   \<exists>new. action_sink g' = action_sink g @ new \<and> length new \<le> 1"
  by (auto simp: ap_track_def Let_def action_sink_def execute_def
           split: option.splits sum.splits if_splits)

lemma ap_exec_call_sink:
  "ap_exec_call c g = (r, g') \<Longrightarrow> \<exists>new. action_sink g' = action_sink g @ new \<and> length new \<le> 1"
proof (cases c)
  case (Handler hc)
  assume e: "ap_exec_call c g = (r, g')"
  show ?thesis
  proof (cases hc)
    case (Track instrument name index id' selected)
    with Handler e show ?thesis using ap_track_sink by simp
  qed (use Handler e in \<open>auto simp: ap_new_clip_def ap_add_midi_def ap_add_fx_def ap_setter_defs
          emit_action_sink Let_def split: sum.splits if_splits option.splits\<close>)
next
  case (Store name v)
  assume "ap_exec_call c g = (r, g')"
  with Store show ?thesis by (auto simp: ap_store_def action_sink_def split: option.splits)
qed

lemma ap_run_sink:
  "ap_run cs g = (r, g') \<Longrightarrow> \<exists>new. action_sink g' = action_sink g @ new \<and> length new \<le> length cs"
proof (induction cs arbitrary: g)
  case Nil
  then show ?case by simp
next
  case (Cons c cs)
  obtain r1 g1 where c: "ap_exec_call c g = (r1, g1)" by (cases "ap_exec_call c g")
  from ap_exec_call_sink[OF c] obtain n1 where n1: "action_sink g1 = action_sink g @ n1" "length n1 \<le> 1"
    by blast
  show ?case
  proof (cases r1)
    case None
    with c Cons.prems have "ap_run cs g1 = (r, g')" by simp
    from Cons.IH[OF this] obtain n2 where "action_sink g' = action_sink g1 @ n2" "length n2 \<le> length cs"
      by blast
    with n1 have "action_sink g' = action_sink g @ (n1 @ n2) \<and> length (n1 @ n2) \<le> length (c # cs)"
      by simp
    then show ?thesis by blast
  next
    case (Some e)
    with c Cons.prems have "g' = g1" by simp
    with n1 have "action_sink g' = action_sink g @ n1 \<and> length n1 \<le> length (c # cs)" by simp
    then show ?thesis by blast
  qed
qed

lemma ap_run_append:
  "ap_run cs g = (None, g1) \<Longrightarrow> ap_run (cs @ ds) g = ap_run ds g1"
  by (induction cs arbitrary: g) (auto split: prod.splits option.splits)

lemma exec_call_actions:
  "exec_call c g = (r, g') \<Longrightarrow> \<exists>new. actions g' = actions g @ new \<and> length new \<le> 1"
  by (cases c)
     (auto simp: track_def new_clip_def add_midi_def add_fx_def setter_defs Let_def
           split: sum.splits if_splits option.splits)


lemma run_actions:
  "run cs g = (r, g') \<Longrightarrow> \<exists>new. actions g' = actions g @ new \<and> length new \<le> length cs"
proof (induction cs arbitrary: g)
  case Nil
  then show ?case by simp
next
  case (Cons c cs)
  obtain r1 g1 where c: "exec_call c g = (r1, g1)" by (cases "exec_call c g")
  from exec_call_actions[OF c] obtain n1 where n1: "actions g1 = actions g @ n1" "length n1 \<le> 1"
    by blast
  show ?case
  proof (cases r1)
    case None
    with c Cons.prems have "run cs g1 = (r, g')" by simp
    from Cons.IH[OF this] obtain n2 where "actions g' = actions g1 @ n2" "length n2 \<le> length cs"
      by blast
    with n1 have "actions g' = actions g @ (n1 @ n2) \<and> length (n1 @ n2) \<le> length (c # cs)"
      by simp
    then show ?thesis by blast
  next
    case (Some e)
    with c Cons.prems have "g' = g1" by simp
    with n1 have "actions g' = actions g @ n1 \<and> length n1 \<le> length (c # cs)" by simp
    then show ?thesis by blast
  qed
qed

lemma emit_action_runtime_none [simp]:
  "ap_runtime g = None \<Longrightarrow> ap_runtime (emit_action a g) = None"
  by (simp add: emit_action_def)

lemma ap_exec_call_emits_cfg:
  assumes "ap_interpreter_dsl_runtime g = (ap_runtime g \<noteq> None)" "ap_exec_call c g = (None, g')"
  shows "ap_interpreter_dsl_runtime g' = (ap_runtime g' \<noteq> None) \<and>
         (\<exists>new. action_sink g' = action_sink g @ new \<and> length new = (if emitting c then 1 else 0))"
proof (cases c)
  case (Handler hc)
  show ?thesis
  proof (cases hc)
    case (Track instrument name index id' selected)
    with Handler assms show ?thesis
      by (cases id'; cases "selected = Some True"; cases "ap_runtime g")
         (auto simp: ap_track_def Let_def action_sink_def execute_def
           split: option.splits sum.splits if_splits)
  qed (use Handler assms in \<open>auto simp: ap_new_clip_def ap_add_midi_def ap_add_fx_def ap_setter_defs
          emit_action_sink Let_def split: sum.splits if_splits option.splits\<close>)
next
  case (Store name v)
  with assms show ?thesis by (auto simp: ap_store_def action_sink_def split: option.splits)
qed

lemma ap_run_emits_cfg:
  "ap_interpreter_dsl_runtime g = (ap_runtime g \<noteq> None) \<Longrightarrow> ap_run cs g = (None, g') \<Longrightarrow>
   ap_interpreter_dsl_runtime g' = (ap_runtime g' \<noteq> None) \<and>
   (\<exists>new. action_sink g' = action_sink g @ new \<and> length new = length (filter emitting cs))"
proof (induction cs arbitrary: g)
  case Nil
  then show ?case by simp
next
  case (Cons c cs)
  from Cons.prems(2) obtain g1 where c: "ap_exec_call c g = (None, g1)" and r: "ap_run cs g1 = (None, g')"
    by (auto split: prod.splits option.splits)
  from ap_exec_call_emits_cfg[OF Cons.prems(1) c] obtain n1 where
    g1: "ap_interpreter_dsl_runtime g1 = (ap_runtime g1 \<noteq> None)" and
    n1: "action_sink g1 = action_sink g @ n1" "length n1 = (if emitting c then 1 else 0)"
    by blast
  from Cons.IH[OF g1 r] obtain n2 where
    g': "ap_interpreter_dsl_runtime g' = (ap_runtime g' \<noteq> None)" and
    n2: "action_sink g' = action_sink g1 @ n2" "length n2 = length (filter emitting cs)" by blast
  from n1 n2 have "action_sink g' = action_sink g @ (n1 @ n2) \<and>
     length (n1 @ n2) = length (filter emitting (c # cs))" by simp
  with g' show ?case by blast
qed

lemma exec_call_emits:
  "exec_call c g = (None, g') \<Longrightarrow>
   \<exists>new. actions g' = actions g @ new \<and> length new = (if is_reference c then 0 else 1)"
proof (cases c)
  case (Track instrument name index id' selected)
  then show "exec_call c g = (None, g') \<Longrightarrow> ?thesis"
    by (cases id'; cases "selected = Some True")
       (auto simp: track_def Let_def split: sum.splits if_splits)
qed (auto simp: new_clip_def add_midi_def add_fx_def setter_defs Let_def
      split: sum.splits if_splits option.splits)

lemma run_emits:
  "run cs g = (None, g') \<Longrightarrow>
   \<exists>new. actions g' = actions g @ new \<and> length new = length (filter (\<lambda>c. \<not> is_reference c) cs)"
proof (induction cs arbitrary: g)
  case Nil
  then show ?case by simp
next
  case (Cons c cs)
  from Cons.prems obtain g1 where c: "exec_call c g = (None, g1)" and r: "run cs g1 = (None, g')"
    by (auto split: prod.splits option.splits)
  from exec_call_emits[OF c] obtain n1 where
    n1: "actions g1 = actions g @ n1" "length n1 = (if is_reference c then 0 else 1)" by blast
  from Cons.IH[OF r] obtain n2 where
    n2: "actions g' = actions g1 @ n2" "length n2 = length (filter (\<lambda>c. \<not> is_reference c) cs)"
    by blast
  from n1 n2 have "actions g' = actions g @ (n1 @ n2) \<and>
     length (n1 @ n2) = length (filter (\<lambda>c. \<not> is_reference c) (c # cs))" by simp
  then show ?case by blast
qed

lemma run_append:
  "run cs g = (None, g1) \<Longrightarrow> run (cs @ ds) g = run ds g1"
  by (induction cs arbitrary: g) (auto split: prod.splits option.splits)

text \<open>
  Claim C8. The claim fails on \<open>MagdaDSLGrammar()\<close> of
  \<open>dsl_parser_action_paradigm.py\<close> built without a runtime, the default: \<open>track\<close> tests for
  the interpreter first and, finding one, passes its action to the runtime only if there is
  one, so that the branch that stores into \<open>_actions\<close> is not reached and the
  \<open>create_track\<close> action goes nowhere. Of the two emitting calls of
  \<open>track(instrument="Serum").new_clip(bar=1)\<close> the sink then holds the clip alone; with a
  collector attached, or on an object without interpreter, it holds both actions in call order.
\<close>

theorem track_action_lost_without_runtime:
  "ap_run [Handler (Track (Some ''Serum'') None None None None),
           Handler (NewClip (Some 1) None None None None None)] (init_ap_grammar None True) =
     (None, \<lparr>ap_runtime = None,
             ap_actions = [\<lparr>kind = ''create_clip_at_bar'',
                payload = [(''track'', PInt 0), (''bar'', PInt 1), (''length_bars'', PInt 4)]\<rparr>],
             ap_current_track_index = 0, ap_track_counter = 1, ap_state = None, ap_data = [],
             ap_interpreter_dsl_runtime = True\<rparr>)
   \<and> action_sink \<lparr>ap_runtime = None,
             ap_actions = [\<lparr>kind = ''create_clip_at_bar'',
                payload = [(''track'', PInt 0), (''bar'', PInt 1), (''length_bars'', PInt 4)]\<rparr>],
             ap_current_track_index = 0, ap_track_counter = 1, ap_state = None, ap_data = [],
             ap_interpreter_dsl_runtime = True\<rparr> =
       [\<lparr>kind = ''create_clip_at_bar'',
          payload = [(''track'', PInt 0), (''bar'', PInt 1), (''length_bars'', PInt 4)]\<rparr>]
   \<and> filter emitting [Handler (Track (Some ''Serum'') None None None None),
           Handler (NewClip (Some 1) None None None None None)] =
       [Handler (Track (Some ''Serum'') None None None None),
        Handler (NewClip (Some 1) None None None None None)]
   \<and> ap_run [Handler (Track (Some ''Serum'') None None None None),
           Handler (NewClip (Some 1) None None None None None)] (init_ap_grammar (Some []) True) =
     (None, \<lparr>ap_runtime = Some
               [\<lparr>kind = ''create_track'',
                  payload = [(''instrument'', PStr ''Serum''), (''index'', PInt 0)]\<rparr>,
                \<lparr>kind = ''create_clip_at_bar'',
                  payload = [(''track'', PInt 0), (''bar'', PInt 1), (''length_bars'', PInt 4)]\<rparr>],
             ap_actions = [],
             ap_current_track_index = 0, ap_track_counter = 1, ap_state = None, ap_data = [],
             ap_interpreter_dsl_runtime = True\<rparr>)
   \<and> ap_run [Handler (Track (Some ''Serum'') None None None None),
           Handler (NewClip (Some 1) None None None None None)] (init_ap_grammar None False) =
     (None, \<lparr>ap_runtime = None,
             ap_actions =
               [\<lparr>kind = ''create_track'',
                  payload = [(''instrument'', PStr ''Serum''), (''index'', PInt 0)]\<rparr>,
                \<lparr>kind = ''create_clip_at_bar'',
                  payload = [(''track'', PInt 0), (''bar'', PInt 1), (''length_bars'', PInt 4)]\<rparr>],
             ap_current_track_index = 0, ap_track_counter = 1, ap_state = None, ap_data = [],
             ap_interpreter_dsl_runtime = False\<rparr>)"
  by (simp add: init_ap_grammar_def ap_track_def opt_entry_def ap_new_clip_def ap_clip_action_def
        opt_int_def emit_action_def execute_def action_sink_def)

text \<open>
  What holds of the sink. A run only ever appends to it: whatever the outcome, the sink
  afterwards is the sink before followed by at most one new action per call. When the test of
  \<open>track\<close> agrees with the presence of a runtime, in a program \<open>cs @ c # ds\<close> whose call
  \<open>c\<close> emits, the action of \<open>c\<close> stands in the sink right after the actions of the emitting
  calls of \<open>cs\<close>, exactly one for each of them, and before everything \<open>ds\<close> emits. The same
  holds of the list \<open>actions\<close> of \<open>dsl_parser.py\<close>, without condition.
\<close>

theorem emission_order:
  "(ap_run cs g = (r, g') \<longrightarrow>
      (\<exists>new. action_sink g' = action_sink g @ new \<and> length new \<le> length cs))
   \<and> (ap_interpreter_dsl_runtime g = (ap_runtime g \<noteq> None)
        \<and> ap_run cs g = (None, g1) \<and> emitting c \<and> ap_exec_call c g1 = (None, g2)
        \<and> ap_run ds g2 = (r, g3) \<longrightarrow>
      ap_run (cs @ c # ds) g = (r, g3)
      \<and> (\<exists>before a after.
            action_sink g1 = action_sink g @ before \<and> length before = length (filter emitting cs)
          \<and> action_sink g2 = action_sink g @ before @ [a]
          \<and> action_sink g3 = action_sink g @ before @ [a] @ after))
   \<and> (run ps p = (pr, p') \<longrightarrow>
      (\<exists>new. actions p' = actions p @ new \<and> length new \<le> length ps))
   \<and> (run ps p = (None, p1) \<and> \<not> is_reference pc \<and> exec_call pc p1 = (None, p2)
        \<and> run qs p2 = (pr, p3) \<longrightarrow>
      run (ps @ pc # qs) p = (pr, p3)
      \<and> (\<exists>before a after.
            actions p1 = actions p @ before
          \<and> length before = length (filter (\<lambda>c. \<not> is_reference c) ps)
          \<and> actions p2 = actions p @ before @ [a]
          \<and> actions p3 = actions p @ before @ [a] @ after))"
proof (intro conjI impI)
  assume "ap_run cs g = (r, g')"
  then show "\<exists>new. action_sink g' = action_sink g @ new \<and> length new \<le> length cs"
    by (rule ap_run_sink)
next
  assume "run ps p = (pr, p')"
  then show "\<exists>new. actions p' = actions p @ new \<and> length new \<le> length ps"
    by (rule run_actions)
next
  assume h: "ap_interpreter_dsl_runtime g = (ap_runtime g \<noteq> None)
        \<and> ap_run cs g = (None, g1) \<and> emitting c \<and> ap_exec_call c g1 = (None, g2)
        \<and> ap_run ds g2 = (r, g3)"
  then show "ap_run (cs @ c # ds) g = (r, g3)"
    using ap_run_append[of cs g g1 "c # ds"] by simp
  from h ap_run_emits_cfg[of g cs g1] obtain before where
    cfg: "ap_interpreter_dsl_runtime g1 = (ap_runtime g1 \<noteq> None)" and
    b: "action_sink g1 = action_sink g @ before" "length before = length (filter emitting cs)"
    by blast
  from h ap_exec_call_emits_cfg[OF cfg, of c g2] obtain n where
    "action_sink g2 = action_sink g1 @ n" "length n = 1" by auto
  then obtain a where a: "action_sink g2 = action_sink g1 @ [a]"
    by (cases n) auto
  from h obtain after where "action_sink g3 = action_sink g2 @ after"
    using ap_run_sink[of ds g2 r g3] by blast
  with a b show "\<exists>before a after.
            action_sink g1 = action_sink g @ before \<and> length before = length (filter emitting cs)
          \<and> action_sink g2 = action_sink g @ before @ [a]
          \<and> action_sink g3 = action_sink g @ before @ [a] @ after"
    by (intro exI[of _ before] exI[of _ a] exI[of _ after]) simp
next
  assume h: "run ps p = (None, p1) \<and> \<not> is_reference pc \<and> exec_call pc p1 = (None, p2)
        \<and> run qs p2 = (pr, p3)"
  then show "run (ps @ pc # qs) p = (pr, p3)"
    using run_append[of ps p p1 "pc # qs"] by simp
  from h run_emits[of ps p p1] obtain before where
    b: "actions p1 = actions p @ before"
       "length before = length (filter (\<lambda>c. \<not> is_reference c) ps)"
    by blast
  from h exec_call_emits[of pc p1 p2] obtain n where
    "actions p2 = actions p1 @ n" "length n = 1" by auto
  then obtain a where a: "actions p2 = actions p1 @ [a]"
    by (cases n) auto
  from h obtain after where "actions p3 = actions p2 @ after"
    using run_actions[of qs p2 pr p3] by blast
  with a b show "\<exists>before a after.
            actions p1 = actions p @ before
          \<and> length before = length (filter (\<lambda>c. \<not> is_reference c) ps)
          \<and> actions p2 = actions p @ before @ [a]
          \<and> actions p3 = actions p @ before @ [a] @ after"
    by (intro exI[of _ before] exI[of _ a] exI[of _ after]) simp
qed


section \<open>The combinators\<close>

lemma set_after_clear [simp]:
  "set_iteration_context c (clear_iteration_context g) = set_iteration_context c g"
  "set_iteration_context c (g\<lparr>iteration_context := c'\<rparr>) = set_iteration_context c g"
  by (simp_all add: set_iteration_context_def clear_iteration_context_def)

lemma clear_context [simp]: "iteration_context (clear_iteration_context g) = []"
  by (simp add: clear_iteration_context_def)

lemma filter_loop_context:
  "iteration_context (snd (filter_loop h iv pred xs filtered g)) =
     (if xs = [] then iteration_context g else [])"
proof (induction xs arbitrary: filtered g)
  case Nil
  then show ?case by simp
next
  case (Cons x xs)
  show ?case
    by (cases "eval_predicate h pred x (set_iteration_context [(iv, x)] g)")
       (auto simp: Cons.IH split: sum.splits)
qed

lemma map_loop_context:
  "iteration_context (snd (map_loop iv f xs mapped g)) =
     (if xs = [] then iteration_context g else [])"
proof (induction xs arbitrary: mapped g)
  case Nil
  then show ?case by simp
next
  case (Cons x xs)
  show ?case
    by (cases "f x (set_iteration_context [(iv, x)] g)")
       (auto simp: Cons.IH split: sum.splits)
qed

lemma for_each_loop_context:
  "iteration_context (for_each_loop iv f xs g) = (if xs = [] then iteration_context g else [])"
proof (induction xs arbitrary: g)
  case Nil
  then show ?case by simp
next
  case (Cons x xs)
  show ?case
    by (cases "f x (set_iteration_context [(iv, x)] g)") (auto simp: Cons.IH)
qed

lemma filter_method_context:
  "iteration_context g = [] \<Longrightarrow> iteration_context (snd (filter_method h c pred g)) = []"
proof -
  assume g: "iteration_context g = []"
  obtain v iv where rc: "resolve_collection c g = (v, iv)" by (cases "resolve_collection c g")
  show ?thesis
  proof (cases v)
    case (PList xs)
    obtain ys g' where l: "filter_loop h iv pred xs [] g = (ys, g')"
      by (cases "filter_loop h iv pred xs [] g")
    with filter_loop_context[of h iv pred xs "[]" g] g have "iteration_context g' = []"
      by (simp split: if_splits)
    with rc PList l show ?thesis by (simp add: filter_method_def)
  qed (use rc g in \<open>simp_all add: filter_method_def\<close>)
qed

lemma map_method_context:
  "iteration_context g = [] \<Longrightarrow> iteration_context (snd (map_method h fa c g)) = []"
proof -
  assume g: "iteration_context g = []"
  obtain v iv where rc: "resolve_collection c g = (v, iv)" by (cases "resolve_collection c g")
  show ?thesis
  proof (cases v)
    case (PList xs)
    show ?thesis
    proof (cases "resolve_function h fa g")
      case (Inl e)
      with rc PList g show ?thesis by (simp add: map_method_def)
    next
      case (Inr f)
      obtain ys g' where l: "map_loop iv f xs [] g = (ys, g')"
        by (cases "map_loop iv f xs [] g")
      with map_loop_context[of iv f xs "[]" g] g have "iteration_context g' = []"
        by (simp split: if_splits)
      with rc PList l Inr show ?thesis by (simp add: map_method_def)
    qed
  qed (use rc g in \<open>simp_all add: map_method_def\<close>)
qed

lemma for_each_context:
  "iteration_context g = [] \<Longrightarrow> iteration_context (snd (for_each h c fa g)) = []"
proof -
  assume g: "iteration_context g = []"
  obtain v iv where rc: "resolve_collection c g = (v, iv)" by (cases "resolve_collection c g")
  show ?thesis
  proof (cases v)
    case (PList xs)
    show ?thesis
    proof (cases "resolve_function h fa g")
      case (Inl e)
      with rc PList g show ?thesis by (simp add: for_each_def)
    next
      case (Inr f)
      with rc PList g for_each_loop_context[of iv f xs g] show ?thesis
        by (simp add: for_each_def split: if_splits)
    qed
  qed (use rc g in \<open>simp_all add: for_each_def\<close>)
qed

lemma kept_clear [simp]:
  "kept h (clear_iteration_context g) iv n = kept h g iv n"
  "kept h (set_iteration_context c g) iv n = kept h g iv n"
  by (rule ext, simp add: kept_def set_iteration_context_def clear_iteration_context_def)+

lemma filter_loop_node:
  "fst (filter_loop h iv (PredNode n) xs filtered g) = filtered @ filter (kept h g iv n) xs"
proof (induction xs arbitrary: filtered g)
  case Nil
  then show ?case by simp
next
  case (Cons x xs)
  show ?case
    by (cases "evaluate_value h (set_iteration_context [(iv, x)] g) n")
       (simp_all add: Cons.IH kept_def[of h g iv n x])
qed

lemma filter_method_list:
  "resolve_collection coll g = (PList xs, iv) \<Longrightarrow>
   filter_method h coll pred g =
     (Inr (fst (filter_loop h iv pred xs [] g)), snd (filter_loop h iv pred xs [] g))"
  by (simp add: filter_method_def split: prod.splits)

lemma map_method_list:
  "resolve_collection coll g = (PList xs, iv) \<Longrightarrow> resolve_function h fa g = Inr f \<Longrightarrow>
   map_method h fa coll g = (Inr (fst (map_loop iv f xs [] g)), snd (map_loop iv f xs [] g))"
  by (simp add: map_method_def split: prod.splits)

lemma for_each_list:
  "resolve_collection coll g = (PList xs, iv) \<Longrightarrow> resolve_function h fa g = Inr f \<Longrightarrow>
   for_each h coll fa g = (None, for_each_loop iv f xs g)"
  by (simp add: for_each_def)

lemma for_each_loop_foldl:
  "for_each_loop iv f xs g =
     foldl (\<lambda>g' x. clear_iteration_context (snd (f x (set_iteration_context [(iv, x)] g')))) g xs"
proof (induction xs arbitrary: g)
  case Nil
  then show ?case by simp
next
  case (Cons x xs)
  show ?case
    by (cases "f x (set_iteration_context [(iv, x)] g)") (simp add: Cons.IH)
qed

lemma map_loop_pure:
  assumes "\<forall>x g'. fst (f x g') = p x"
  shows "fst (map_loop iv f xs mapped g) =
     mapped @ List.map_filter (\<lambda>x. case p x of Inr v \<Rightarrow> Some v | Inl e \<Rightarrow> None) xs"
proof (induction xs arbitrary: mapped g)
  case Nil
  then show ?case by (simp add: List.map_filter_simps)
next
  case (Cons x xs)
  obtain a g' where r: "f x (set_iteration_context [(iv, x)] g) = (a, g')"
    by (cases "f x (set_iteration_context [(iv, x)] g)")
  with assms have a: "p x = a" by (metis fst_conv)
  show ?case
    by (cases a) (simp_all add: r a Cons.IH List.map_filter_simps)
qed

lemma map_loop_accounts:
  "length (fst (map_loop iv f xs mapped g)) + length (map_warnings iv f xs g) =
     length mapped + length xs"
proof (induction xs arbitrary: mapped g)
  case Nil
  then show ?case by simp
next
  case (Cons x xs)
  obtain a g' where r: "f x (set_iteration_context [(iv, x)] g) = (a, g')"
    by (cases "f x (set_iteration_context [(iv, x)] g)")
  show ?case
    by (cases a) (simp_all add: r Cons.IH)
qed

lemma map_warnings_pure:
  assumes "\<forall>x g'. fst (f x g') = p x"
  shows "map_warnings iv f xs g =
     List.map_filter (\<lambda>x. case p x of
         Inl e \<Rightarrow> Some (''Error mapping function over item: '', e) | Inr v \<Rightarrow> None) xs"
proof (induction xs arbitrary: g)
  case Nil
  then show ?case by (simp add: List.map_filter_simps)
next
  case (Cons x xs)
  obtain a g' where r: "f x (set_iteration_context [(iv, x)] g) = (a, g')"
    by (cases "f x (set_iteration_context [(iv, x)] g)")
  with assms have a: "p x = a" by (metis fst_conv)
  show ?case
    by (cases a) (simp_all add: r a Cons.IH List.map_filter_simps)
qed

lemma for_each_warnings_pure:
  assumes "\<forall>x g'. fst (f x g') = p x"
  shows "for_each_warnings iv f xs g =
     List.map_filter (\<lambda>x. case p x of
         Inl e \<Rightarrow> Some (''Error executing action for item: '', e) | Inr v \<Rightarrow> None) xs"
proof (induction xs arbitrary: g)
  case Nil
  then show ?case by (simp add: List.map_filter_simps)
next
  case (Cons x xs)
  obtain a g' where r: "f x (set_iteration_context [(iv, x)] g) = (a, g')"
    by (cases "f x (set_iteration_context [(iv, x)] g)")
  with assms have a: "p x = a" by (metis fst_conv)
  show ?case
    by (cases a) (simp_all add: r a Cons.IH List.map_filter_simps)
qed

lemma filter_loop_pure:
  assumes "\<forall>x g'. fst (c x g') = p x"
  shows "fst (filter_loop h iv (PredCallable c) xs filtered g) =
     filtered @ filter (\<lambda>x. case p x of Inr v \<Rightarrow> truthy v | Inl e \<Rightarrow> False) xs"
proof (induction xs arbitrary: filtered g)
  case Nil
  then show ?case by simp
next
  case (Cons x xs)
  obtain a g' where r: "c x (set_iteration_context [(iv, x)] g) = (a, g')"
    by (cases "c x (set_iteration_context [(iv, x)] g)")
  with assms have a: "p x = a" by (metis fst_conv)
  show ?case
    by (cases a) (simp_all add: r a Cons.IH)
qed

lemma filter_warnings_pure:
  assumes "\<forall>x g'. fst (c x g') = p x"
  shows "filter_warnings h iv (PredCallable c) xs g =
     List.map_filter (\<lambda>x. case p x of
         Inl e \<Rightarrow> Some (''Error evaluating predicate for item: '', e) | Inr v \<Rightarrow> None) xs"
proof (induction xs arbitrary: g)
  case Nil
  then show ?case by (simp add: List.map_filter_simps)
next
  case (Cons x xs)
  obtain a g' where r: "c x (set_iteration_context [(iv, x)] g) = (a, g')"
    by (cases "c x (set_iteration_context [(iv, x)] g)")
  with assms have a: "p x = a" by (metis fst_conv)
  show ?case
    by (cases a) (simp_all add: r a Cons.IH List.map_filter_simps)
qed

lemma evaluate_value_context:
  "evaluate_value h (set_iteration_context c (clear_iteration_context g)) n =
   evaluate_value h (set_iteration_context c g) n"
  "evaluate_value h (set_iteration_context c (set_iteration_context c' g)) n =
   evaluate_value h (set_iteration_context c g) n"
  by (simp_all add: set_iteration_context_def clear_iteration_context_def)

lemma filter_warnings_node:
  "filter_warnings h iv (PredNode n) xs g =
     List.map_filter (\<lambda>x. case evaluate_value h (set_iteration_context [(iv, x)] g) n of
         Inl e \<Rightarrow> Some (''Error evaluating predicate for item: '', e) | Inr v \<Rightarrow> None) xs"
proof (induction xs arbitrary: g)
  case Nil
  then show ?case by (simp add: List.map_filter_simps)
next
  case (Cons x xs)
  show ?case
    by (cases "evaluate_value h (set_iteration_context [(iv, x)] g) n")
       (simp_all add: Cons.IH List.map_filter_simps evaluate_value_context)
qed

text \<open>
  Claim C3, as amended. In \<open>filter\<close>, \<open>map\<close> and \<open>for_each\<close> an item whose evaluation
  raises is caught: a warning with the exception is logged, the item is dropped, and the loop
  goes on with the items after it. With a collection that resolves to a list, each method
  returns what its loop computes, whatever the items do: \<open>filter\<close> the items under which the
  predicate is truthy, \<open>map\<close> the results of the items that did not raise, both in the order
  of the collection, and \<open>for_each\<close> the object after the function ran on every item in
  turn; the warnings are those of the items that raised, and every item of \<open>map\<close> gives
  either a result or a warning. A collection that is no list makes
  any of the three fail with a \<open>ValueError\<close>, and so does, for \<open>map\<close> and \<open>for_each\<close>, a
  reference \<open>@name\<close> to no attribute of the object; the object is then left as it was.
  \<open>filter\<close> takes a predicate and resolves no function reference: whatever its predicate,
  a string included, it returns a list.
\<close>

theorem combinator_error_policy:
  "(eval_predicate h pred item (set_iteration_context [(iv, item)] g) = (Inl e, g1) \<longrightarrow>
      filter_loop h iv pred (item # items) filtered g =
        filter_loop h iv pred items filtered (clear_iteration_context g1)
      \<and> filter_warnings h iv pred (item # items) g =
        (''Error evaluating predicate for item: '', e)
          # filter_warnings h iv pred items (clear_iteration_context g1))
   \<and> (f item (set_iteration_context [(iv, item)] g) = (Inl e, g1) \<longrightarrow>
      map_loop iv f (item # items) mapped g =
        map_loop iv f items mapped (clear_iteration_context g1)
      \<and> map_warnings iv f (item # items) g =
        (''Error mapping function over item: '', e)
          # map_warnings iv f items (clear_iteration_context g1)
      \<and> for_each_loop iv f (item # items) g =
        for_each_loop iv f items (clear_iteration_context g1)
      \<and> for_each_warnings iv f (item # items) g =
        (''Error executing action for item: '', e)
          # for_each_warnings iv f items (clear_iteration_context g1))
   \<and> (resolve_collection coll g = (PList xs, iv) \<longrightarrow>
      filter_method h coll pred g =
        (Inr (fst (filter_loop h iv pred xs [] g)), snd (filter_loop h iv pred xs [] g))
      \<and> fst (filter_method h coll (PredNode n) g) = Inr (filter (kept h g iv n) xs)
      \<and> filter_warnings h iv (PredNode n) xs g =
          List.map_filter (\<lambda>x. case evaluate_value h (set_iteration_context [(iv, x)] g) n of
              Inl e \<Rightarrow> Some (''Error evaluating predicate for item: '', e) | Inr v \<Rightarrow> None) xs
      \<and> ((\<forall>x g'. fst (c x g') = p x) \<longrightarrow>
           fst (filter_method h coll (PredCallable c) g) =
             Inr (filter (\<lambda>x. case p x of Inr v \<Rightarrow> truthy v | Inl e \<Rightarrow> False) xs)
           \<and> filter_warnings h iv (PredCallable c) xs g =
             List.map_filter (\<lambda>x. case p x of
                 Inl e \<Rightarrow> Some (''Error evaluating predicate for item: '', e) | Inr v \<Rightarrow> None) xs)
      \<and> (resolve_function h fa g = Inr f \<longrightarrow>
           map_method h fa coll g =
             (Inr (fst (map_loop iv f xs [] g)), snd (map_loop iv f xs [] g))
           \<and> for_each h coll fa g = (None, for_each_loop iv f xs g)
           \<and> for_each_loop iv f xs g =
               foldl (\<lambda>g' x. clear_iteration_context (snd (f x (set_iteration_context [(iv, x)] g'))))
                 g xs
           \<and> length (fst (map_loop iv f xs [] g)) + length (map_warnings iv f xs g) = length xs
           \<and> ((\<forall>x g'. fst (f x g') = p x) \<longrightarrow>
                fst (map_method h fa coll g) =
                  Inr (List.map_filter (\<lambda>x. case p x of Inr v \<Rightarrow> Some v | Inl e \<Rightarrow> None) xs)
                \<and> map_warnings iv f xs g =
                  List.map_filter (\<lambda>x. case p x of
                      Inl e \<Rightarrow> Some (''Error mapping function over item: '', e) | Inr v \<Rightarrow> None) xs
                \<and> for_each_warnings iv f xs g =
                  List.map_filter (\<lambda>x. case p x of
                      Inl e \<Rightarrow> Some (''Error executing action for item: '', e) | Inr v \<Rightarrow> None) xs))
      \<and> (dsl_attr h g (lstrip ''@'' name) = None \<longrightarrow>
           map_method h (FuncValue (PStr name)) coll g =
             (Inl (ValueError (''Unknown function: '' @ lstrip ''@'' name)), g)
           \<and> for_each h coll (FuncValue (PStr name)) g =
             (Some (ValueError (''Unknown function: '' @ lstrip ''@'' name)), g)))
   \<and> (resolve_collection coll g = (v, iv) \<and> (\<forall>ys. v \<noteq> PList ys) \<longrightarrow>
      filter_method h coll pred g =
        (Inl (ValueError (''Collection must be a list, got '' @ type_name v)), g)
      \<and> map_method h fa coll g =
        (Inl (ValueError (''Collection must be a list, got '' @ type_name v)), g)
      \<and> for_each h coll fa g =
        (Some (ValueError (''Collection must be a list, got '' @ type_name v)), g))"
proof (intro conjI impI)
  assume a: "eval_predicate h pred item (set_iteration_context [(iv, item)] g) = (Inl e, g1)"
  then show "filter_loop h iv pred (item # items) filtered g =
        filter_loop h iv pred items filtered (clear_iteration_context g1)"
    by simp
  from a show "filter_warnings h iv pred (item # items) g =
        (''Error evaluating predicate for item: '', e)
          # filter_warnings h iv pred items (clear_iteration_context g1)"
    by simp
next
  assume a: "f item (set_iteration_context [(iv, item)] g) = (Inl e, g1)"
  then show "map_loop iv f (item # items) mapped g =
        map_loop iv f items mapped (clear_iteration_context g1)"
    by simp
  from a show "map_warnings iv f (item # items) g =
        (''Error mapping function over item: '', e)
          # map_warnings iv f items (clear_iteration_context g1)"
    by simp
  from a show "for_each_loop iv f (item # items) g =
        for_each_loop iv f items (clear_iteration_context g1)"
    by simp
  from a show "for_each_warnings iv f (item # items) g =
        (''Error executing action for item: '', e)
          # for_each_warnings iv f items (clear_iteration_context g1)"
    by simp
next
  assume rc: "resolve_collection coll g = (PList xs, iv)"
  show "filter_method h coll pred g =
        (Inr (fst (filter_loop h iv pred xs [] g)), snd (filter_loop h iv pred xs [] g))"
    by (rule filter_method_list[OF rc])
  from filter_method_list[OF rc, of h "PredNode n"]
  show "fst (filter_method h coll (PredNode n) g) = Inr (filter (kept h g iv n) xs)"
    by (simp add: filter_loop_node)
  show "filter_warnings h iv (PredNode n) xs g =
          List.map_filter (\<lambda>x. case evaluate_value h (set_iteration_context [(iv, x)] g) n of
              Inl e \<Rightarrow> Some (''Error evaluating predicate for item: '', e) | Inr v \<Rightarrow> None) xs"
    by (rule filter_warnings_node)
  {
    assume pure: "\<forall>x g'. fst (c x g') = p x"
    from filter_method_list[OF rc, of h "PredCallable c"] filter_loop_pure[OF pure, of h iv xs "[]" g]
    show "fst (filter_method h coll (PredCallable c) g) =
             Inr (filter (\<lambda>x. case p x of Inr v \<Rightarrow> truthy v | Inl e \<Rightarrow> False) xs)"
      by simp
    show "filter_warnings h iv (PredCallable c) xs g =
             List.map_filter (\<lambda>x. case p x of
                 Inl e \<Rightarrow> Some (''Error evaluating predicate for item: '', e) | Inr v \<Rightarrow> None) xs"
      by (rule filter_warnings_pure[OF pure])
  }
  {
    assume rf: "resolve_function h fa g = Inr f"
    show "map_method h fa coll g =
             (Inr (fst (map_loop iv f xs [] g)), snd (map_loop iv f xs [] g))"
      by (rule map_method_list[OF rc rf])
    show "for_each h coll fa g = (None, for_each_loop iv f xs g)"
      by (rule for_each_list[OF rc rf])
    show "for_each_loop iv f xs g =
               foldl (\<lambda>g' x. clear_iteration_context (snd (f x (set_iteration_context [(iv, x)] g'))))
                 g xs"
      by (rule for_each_loop_foldl)
    show "length (fst (map_loop iv f xs [] g)) + length (map_warnings iv f xs g) = length xs"
      using map_loop_accounts[of iv f xs "[]" g] by simp
    {
      assume pure: "\<forall>x g'. fst (f x g') = p x"
      from map_method_list[OF rc rf] map_loop_pure[OF pure, of iv xs "[]" g]
      show "fst (map_method h fa coll g) =
                  Inr (List.map_filter (\<lambda>x. case p x of Inr v \<Rightarrow> Some v | Inl e \<Rightarrow> None) xs)"
        by simp
      show "map_warnings iv f xs g =
                  List.map_filter (\<lambda>x. case p x of
                      Inl e \<Rightarrow> Some (''Error mapping function over item: '', e) | Inr v \<Rightarrow> None) xs"
        by (rule map_warnings_pure[OF pure])
      show "for_each_warnings iv f xs g =
                  List.map_filter (\<lambda>x. case p x of
                      Inl e \<Rightarrow> Some (''Error executing action for item: '', e) | Inr v \<Rightarrow> None) xs"
        by (rule for_each_warnings_pure[OF pure])
    }
  }
  {
    assume d: "dsl_attr h g (lstrip ''@'' name) = None"
    with rc show "map_method h (FuncValue (PStr name)) coll g =
             (Inl (ValueError (''Unknown function: '' @ lstrip ''@'' name)), g)"
      by (simp add: map_method_def resolve_function_def)
    from d rc show "for_each h coll (FuncValue (PStr name)) g =
             (Some (ValueError (''Unknown function: '' @ lstrip ''@'' name)), g)"
      by (simp add: for_each_def resolve_function_def)
  }
next
  assume a: "resolve_collection coll g = (v, iv) \<and> (\<forall>ys. v \<noteq> PList ys)"
  then show "filter_method h coll pred g =
        (Inl (ValueError (''Collection must be a list, got '' @ type_name v)), g)"
    by (cases v) (simp_all add: filter_method_def)
  from a show "map_method h fa coll g =
        (Inl (ValueError (''Collection must be a list, got '' @ type_name v)), g)"
    by (cases v) (simp_all add: map_method_def)
  from a show "for_each h coll fa g =
        (Some (ValueError (''Collection must be a list, got '' @ type_name v)), g)"
    by (cases v) (simp_all add: for_each_def)
qed


text \<open>
  Claim C4. After any item, whether its evaluation returned or raised, the loop continues
  with an empty iteration context; so the context is empty after a loop over at least one
  item, and a context that was set before an item is replaced, not seen, when the item is
  processed. A combinator entered with an empty context leaves an empty context, also when
  it fails.
\<close>

theorem iteration_binding_cleared:
  "iteration_context (snd (filter_loop h iv pred (x # xs) filtered g)) = []
   \<and> iteration_context (snd (map_loop iv f (x # xs) mapped g)) = []
   \<and> iteration_context (for_each_loop iv f (x # xs) g) = []
   \<and> (eval_predicate h pred x (set_iteration_context [(iv, x)] g) = (r, g1) \<longrightarrow>
        filter_loop h iv pred (x # xs) filtered g =
          filter_loop h iv pred xs
            (case r of Inr v \<Rightarrow> if truthy v then filtered @ [x] else filtered | Inl e \<Rightarrow> filtered)
            (g1\<lparr>iteration_context := []\<rparr>))
   \<and> (f x (set_iteration_context [(iv, x)] g) = (r, g1) \<longrightarrow>
        map_loop iv f (x # xs) mapped g =
          map_loop iv f xs (case r of Inr v \<Rightarrow> mapped @ [v] | Inl e \<Rightarrow> mapped)
            (g1\<lparr>iteration_context := []\<rparr>)
        \<and> for_each_loop iv f (x # xs) g = for_each_loop iv f xs (g1\<lparr>iteration_context := []\<rparr>))
   \<and> filter_loop h iv pred (x # xs) filtered (g\<lparr>iteration_context := c\<rparr>) =
       filter_loop h iv pred (x # xs) filtered g
   \<and> map_loop iv f (x # xs) mapped (g\<lparr>iteration_context := c\<rparr>) = map_loop iv f (x # xs) mapped g
   \<and> for_each_loop iv f (x # xs) (g\<lparr>iteration_context := c\<rparr>) = for_each_loop iv f (x # xs) g
   \<and> (iteration_context g = [] \<longrightarrow>
        iteration_context (snd (filter_method h coll pred g)) = []
        \<and> iteration_context (snd (map_method h fa coll g)) = []
        \<and> iteration_context (snd (for_each h coll fa g)) = [])"
proof (intro conjI impI)
  show "iteration_context (snd (filter_loop h iv pred (x # xs) filtered g)) = []"
    using filter_loop_context[of h iv pred "x # xs" filtered g] by simp
  show "iteration_context (snd (map_loop iv f (x # xs) mapped g)) = []"
    using map_loop_context[of iv f "x # xs" mapped g] by simp
  show "iteration_context (for_each_loop iv f (x # xs) g) = []"
    using for_each_loop_context[of iv f "x # xs" g] by simp
next
  assume "eval_predicate h pred x (set_iteration_context [(iv, x)] g) = (r, g1)"
  then show "filter_loop h iv pred (x # xs) filtered g =
          filter_loop h iv pred xs
            (case r of Inr v \<Rightarrow> if truthy v then filtered @ [x] else filtered | Inl e \<Rightarrow> filtered)
            (g1\<lparr>iteration_context := []\<rparr>)"
    by (cases r) (simp_all add: clear_iteration_context_def)
next
  assume a: "f x (set_iteration_context [(iv, x)] g) = (r, g1)"
  then show "map_loop iv f (x # xs) mapped g =
          map_loop iv f xs (case r of Inr v \<Rightarrow> mapped @ [v] | Inl e \<Rightarrow> mapped)
            (g1\<lparr>iteration_context := []\<rparr>)"
    by (cases r) (simp_all add: clear_iteration_context_def)
  from a show "for_each_loop iv f (x # xs) g = for_each_loop iv f xs (g1\<lparr>iteration_context := []\<rparr>)"
    by (simp add: clear_iteration_context_def)
next
  assume g: "iteration_context g = []"
  then show "iteration_context (snd (filter_method h coll pred g)) = []"
    by (rule filter_method_context)
  from g show "iteration_context (snd (map_method h fa coll g)) = []"
    by (rule map_method_context)
  from g show "iteration_context (snd (for_each h coll fa g)) = []"
    by (rule for_each_context)
qed simp_all


section \<open>Expressions\<close>

text \<open>
  Claim C7. A binary expression whose right operand fails to evaluate fails as a whole, for
  every operator, \<open>and\<close> and \<open>or\<close> included: with the error of the left operand when that
  fails too, and with the error of the right operand otherwise, whatever value the left
  operand has.
\<close>

theorem binary_evaluation_strict:
  "evaluate_value h g r = Inl e \<longrightarrow>
     evaluate_expression h g left (Some op) (Some r) =
       (case evaluate_value h g left of Inl e' \<Rightarrow> Inl e' | Inr left_val \<Rightarrow> Inl e)
     \<and> evaluate_value h g (Expression left (Some op) (Some r)) =
       (case evaluate_value h g left of Inl e' \<Rightarrow> Inl e' | Inr left_val \<Rightarrow> Inl e)"
  by (simp split: sum.splits)


section \<open>The properties on examples\<close>

text \<open>\<open>True or missing.name\<close> and \<open>False and missing.name\<close> fail on the unknown object,
  though the left operand alone decides either of them.\<close>

theorem binary_evaluation_strict_witness:
  "evaluate_value example_host init_rgrammar (PropertyAccess ''missing'' [''name'']) =
     Inl (ValueError ''Unknown object: missing'')
   \<and> evaluate_value example_host init_rgrammar (Value (PBool True)) = Inr (PBool True)
   \<and> evaluate_expression example_host init_rgrammar (Value (PBool True)) (Some ''or'')
       (Some (PropertyAccess ''missing'' [''name''])) =
     Inl (ValueError ''Unknown object: missing'')
   \<and> evaluate_value example_host init_rgrammar
       (Expression (Value (PBool False)) (Some ''and'')
          (Some (PropertyAccess ''missing'' [''name'']))) =
     Inl (ValueError ''Unknown object: missing'')"
proof -
  have r: "evaluate_value example_host init_rgrammar (PropertyAccess ''missing'' [''name'']) =
     Inl (ValueError ''Unknown object: missing'')"
    by (simp add: evaluate_property_access_def init_rgrammar_def example_host_def
          dsl_getattr_def dsl_attr_def dict_get_default_def)
  from binary_evaluation_strict[where h = example_host and g = init_rgrammar
      and r = "PropertyAccess ''missing'' [''name'']" and left = "Value (PBool True)"
      and op = "''or''"] r
  have 1: "evaluate_expression example_host init_rgrammar (Value (PBool True)) (Some ''or'')
       (Some (PropertyAccess ''missing'' [''name''])) =
     Inl (ValueError ''Unknown object: missing'')"
    by simp
  from binary_evaluation_strict[where h = example_host and g = init_rgrammar
      and r = "PropertyAccess ''missing'' [''name'']" and left = "Value (PBool False)"
      and op = "''and''"] r
  have 2: "evaluate_value example_host init_rgrammar
       (Expression (Value (PBool False)) (Some ''and'')
          (Some (PropertyAccess ''missing'' [''name'']))) =
     Inl (ValueError ''Unknown object: missing'')"
    by simp
  from r 1 2 show ?thesis by simp
qed

text \<open>\<open>new_clip(bar=3, end=9)\<close> and \<open>new_clip(start=2.0, end=9)\<close> with the second track of
  \<open>REAPER_STATE\<close> selected and no track bound.\<close>

theorem new_clip_end_ignored_witness:
  "new_clip (Some 3) None (Some 9) None None None (set_state REAPER_STATE init_grammar) =
     (None, (set_state REAPER_STATE init_grammar)\<lparr>actions :=
        [[(''track'', PInt 1), (''action'', PStr ''create_clip_at_bar''),
          (''bar'', PInt 3), (''length_bars'', PInt 4)]]\<rparr>)
   \<and> new_clip (Some 3) None (Some 9) None None None (set_state REAPER_STATE init_grammar) =
     new_clip (Some 3) None None None None None (set_state REAPER_STATE init_grammar)
   \<and> ((set_state REAPER_STATE init_grammar)\<lparr>actions :=
        [[(''track'', PInt 1), (''action'', PStr ''create_clip_at_bar''),
          (''bar'', PInt 3), (''length_bars'', PInt 4)]]\<rparr> = set_state REAPER_STATE init_grammar
      \<or> (\<exists>a. (set_state REAPER_STATE init_grammar)\<lparr>actions :=
             [[(''track'', PInt 1), (''action'', PStr ''create_clip_at_bar''),
               (''bar'', PInt 3), (''length_bars'', PInt 4)]]\<rparr> =
             (set_state REAPER_STATE init_grammar)\<lparr>actions :=
                actions (set_state REAPER_STATE init_grammar) @ [a]\<rparr>
           \<and> map_of a ''end'' = None))
   \<and> ap_new_clip None (Some 2) (Some 9) None None None
       (ap_set_state REAPER_STATE (init_ap_grammar (Some []) True)) =
     (None, emit_action \<lparr>kind = ''create_clip'',
          payload = [(''track'', PInt 1), (''position'', PFloat 2), (''length'', PFloat 4)]\<rparr>
        (ap_set_state REAPER_STATE (init_ap_grammar (Some []) True)))
   \<and> ap_new_clip None (Some 2) (Some 9) None None None
       (ap_set_state REAPER_STATE (init_ap_grammar (Some []) True)) =
     ap_new_clip None (Some 2) None None None None
       (ap_set_state REAPER_STATE (init_ap_grammar (Some []) True))
   \<and> (emit_action \<lparr>kind = ''create_clip'',
          payload = [(''track'', PInt 1), (''position'', PFloat 2), (''length'', PFloat 4)]\<rparr>
        (ap_set_state REAPER_STATE (init_ap_grammar (Some []) True)) =
        ap_set_state REAPER_STATE (init_ap_grammar (Some []) True)
      \<or> (\<exists>a. emit_action \<lparr>kind = ''create_clip'',
              payload = [(''track'', PInt 1), (''position'', PFloat 2), (''length'', PFloat 4)]\<rparr>
            (ap_set_state REAPER_STATE (init_ap_grammar (Some []) True)) =
            emit_action a (ap_set_state REAPER_STATE (init_ap_grammar (Some []) True))
           \<and> map_of (payload a) ''end'' = None))"
proof -
  let ?g = "set_state REAPER_STATE init_grammar"
  let ?ag = "ap_set_state REAPER_STATE (init_ap_grammar (Some []) True)"
  let ?g' = "?g\<lparr>actions :=
        [[(''track'', PInt 1), (''action'', PStr ''create_clip_at_bar''),
          (''bar'', PInt 3), (''length_bars'', PInt 4)]]\<rparr>"
  let ?a = "\<lparr>kind = ''create_clip'',
          payload = [(''track'', PInt 1), (''position'', PFloat 2), (''length'', PFloat 4)]\<rparr>"
  have n: "new_clip (Some 3) None (Some 9) None None None ?g = (None, ?g')"
    using selected_REAPER_STATE
    by (simp add: new_clip_def clip_action_def opt_int_def set_state_def init_grammar_def)
  have an: "ap_new_clip None (Some 2) (Some 9) None None None ?ag = (None, emit_action ?a ?ag)"
    using selected_REAPER_STATE
    by (simp add: ap_new_clip_def ap_clip_action_def opt_float_def ap_set_state_def
          init_ap_grammar_def)
  note t = new_clip_end_ignored[where bar = "Some 3" and start = None and ?end1.0 = "Some 9"
      and ?end2.0 = None and length_bars = None and length' = None and position = None
      and g = ?g and r = None and g' = ?g']
  note u = new_clip_end_ignored[where bar = None and start = "Some 2" and ?end1.0 = "Some 9"
      and ?end2.0 = None and length_bars = None and length' = None and position = None
      and ag = ?ag and ar = None and ag' = "emit_action ?a ?ag"]
  from t n have 1: "new_clip (Some 3) None (Some 9) None None None ?g =
     new_clip (Some 3) None None None None None ?g"
    and 2: "?g' = ?g \<or> (\<exists>a. ?g' = ?g\<lparr>actions := actions ?g @ [a]\<rparr> \<and> map_of a ''end'' = None)"
    by blast+
  from u an have 3: "ap_new_clip None (Some 2) (Some 9) None None None ?ag =
     ap_new_clip None (Some 2) None None None None ?ag"
    and 4: "emit_action ?a ?ag = ?ag
      \<or> (\<exists>a. emit_action ?a ?ag = emit_action a ?ag \<and> map_of (payload a) ''end'' = None)"
    by blast+
  from n 1 2 an 3 4 show ?thesis by blast
qed

text \<open>The same snapshot: the clip goes to track 1, and the calls that follow find no track.\<close>

theorem new_clip_fallback_keeps_unbound_witness:
  "current_track_index (set_state REAPER_STATE init_grammar) < 0
   \<and> get_selected_track_index (state (set_state REAPER_STATE init_grammar)) = Inr 1
   \<and> (\<exists>a. new_clip (Some 3) None None None None None (set_state REAPER_STATE init_grammar) =
            (None, (set_state REAPER_STATE init_grammar)\<lparr>actions :=
               actions (set_state REAPER_STATE init_grammar) @ [a]\<rparr>)
        \<and> map_of a ''track'' = Some (PInt 1)
        \<and> current_track_index ((set_state REAPER_STATE init_grammar)\<lparr>actions :=
               actions (set_state REAPER_STATE init_grammar) @ [a]\<rparr>) =
            current_track_index (set_state REAPER_STATE init_grammar)
        \<and> add_midi None None ((set_state REAPER_STATE init_grammar)\<lparr>actions :=
               actions (set_state REAPER_STATE init_grammar) @ [a]\<rparr>) =
            (Some (ValueError ''No track context for midi call''),
             (set_state REAPER_STATE init_grammar)\<lparr>actions :=
               actions (set_state REAPER_STATE init_grammar) @ [a]\<rparr>)
        \<and> set_volume (- 3) ((set_state REAPER_STATE init_grammar)\<lparr>actions :=
               actions (set_state REAPER_STATE init_grammar) @ [a]\<rparr>) =
            (Some (ValueError ''No track context for volume call''),
             (set_state REAPER_STATE init_grammar)\<lparr>actions :=
               actions (set_state REAPER_STATE init_grammar) @ [a]\<rparr>))
   \<and> ap_current_track_index (ap_set_state REAPER_STATE (init_ap_grammar (Some []) True)) < 0
   \<and> (\<exists>a. ap_new_clip (Some 3) None None None None None
              (ap_set_state REAPER_STATE (init_ap_grammar (Some []) True)) =
            (None, emit_action a (ap_set_state REAPER_STATE (init_ap_grammar (Some []) True)))
        \<and> map_of (payload a) ''track'' = Some (PInt 1)
        \<and> ap_current_track_index
              (emit_action a (ap_set_state REAPER_STATE (init_ap_grammar (Some []) True))) =
            ap_current_track_index (ap_set_state REAPER_STATE (init_ap_grammar (Some []) True))
        \<and> ap_add_midi None None
              (emit_action a (ap_set_state REAPER_STATE (init_ap_grammar (Some []) True))) =
            (Some (ValueError ''No track context for midi call''),
             emit_action a (ap_set_state REAPER_STATE (init_ap_grammar (Some []) True)))
        \<and> ap_set_volume (- 3)
              (emit_action a (ap_set_state REAPER_STATE (init_ap_grammar (Some []) True))) =
            (Some (ValueError ''No track context for volume call''),
             emit_action a (ap_set_state REAPER_STATE (init_ap_grammar (Some []) True))))"
proof -
  let ?g = "set_state REAPER_STATE init_grammar"
  let ?ag = "ap_set_state REAPER_STATE (init_ap_grammar (Some []) True)"
  have c: "current_track_index ?g < 0" by (simp add: set_state_def init_grammar_def)
  have s: "get_selected_track_index (state ?g) = Inr 1"
    using selected_REAPER_STATE by (simp add: set_state_def)
  have ac: "ap_current_track_index ?ag < 0" by (simp add: ap_set_state_def init_ap_grammar_def)
  have as: "get_selected_track_index (ap_state ?ag) = Inr 1"
    using selected_REAPER_STATE by (simp add: ap_set_state_def)
  have i: "(0::int) \<le> 1" by simp
  have b: "Some (3::int) \<noteq> None \<or> (None::real option) \<noteq> None \<or> (None::real option) \<noteq> None"
    by simp
  note t = new_clip_fallback_keeps_unbound[where g = ?g and ag = ?ag and i = 1
      and bar = "Some 3" and start = None and position = None and end' = None
      and length_bars = None and length' = None and volume_db = "- 3"]
  from t c s i b have 1: "\<exists>a. new_clip (Some 3) None None None None None ?g =
            (None, ?g\<lparr>actions := actions ?g @ [a]\<rparr>)
        \<and> map_of a ''track'' = Some (PInt 1)
        \<and> current_track_index (?g\<lparr>actions := actions ?g @ [a]\<rparr>) = current_track_index ?g
        \<and> add_midi None None (?g\<lparr>actions := actions ?g @ [a]\<rparr>) =
            (Some (ValueError ''No track context for midi call''), ?g\<lparr>actions := actions ?g @ [a]\<rparr>)
        \<and> set_volume (- 3) (?g\<lparr>actions := actions ?g @ [a]\<rparr>) =
            (Some (ValueError ''No track context for volume call''),
             ?g\<lparr>actions := actions ?g @ [a]\<rparr>)"
    by blast
  from t ac as i b have 2: "\<exists>a. ap_new_clip (Some 3) None None None None None ?ag =
            (None, emit_action a ?ag)
        \<and> map_of (payload a) ''track'' = Some (PInt 1)
        \<and> ap_current_track_index (emit_action a ?ag) = ap_current_track_index ?ag
        \<and> ap_add_midi None None (emit_action a ?ag) =
            (Some (ValueError ''No track context for midi call''), emit_action a ?ag)
        \<and> ap_set_volume (- 3) (emit_action a ?ag) =
            (Some (ValueError ''No track context for volume call''), emit_action a ?ag)"
    by blast
  from c s 1 ac 2 show ?thesis by blast
qed

text \<open>The program \<open>track(instrument="Serum")\<close>, \<open>store(x, 1)\<close>, \<open>new_clip(bar=1)\<close>,
  \<open>set_name("Lead")\<close> with a collector attached, and programs of \<open>dsl_parser.py\<close> that
  fail at their last call and keep the actions of the calls before it.\<close>

theorem emission_order_witness:
  "\<exists>g1 g2 g3.
     ap_run [Handler (Track (Some ''Serum'') None None None None), Store ''x'' (PInt 1)]
       (init_ap_grammar (Some []) True) = (None, g1)
   \<and> ap_exec_call (Handler (NewClip (Some 1) None None None None None)) g1 = (None, g2)
   \<and> ap_run [Handler (SetName ''Lead'')] g2 = (None, g3)
   \<and> ap_run ([Handler (Track (Some ''Serum'') None None None None), Store ''x'' (PInt 1)]
         @ Handler (NewClip (Some 1) None None None None None) # [Handler (SetName ''Lead'')])
       (init_ap_grammar (Some []) True) = (None, g3)
   \<and> action_sink g3 =
       [\<lparr>kind = ''create_track'', payload = [(''instrument'', PStr ''Serum''), (''index'', PInt 0)]\<rparr>,
        \<lparr>kind = ''create_clip_at_bar'',
          payload = [(''track'', PInt 0), (''bar'', PInt 1), (''length_bars'', PInt 4)]\<rparr>,
        \<lparr>kind = ''set_track_name'', payload = [(''track'', PInt 0), (''name'', PStr ''Lead'')]\<rparr>]
   \<and> (\<exists>before a after.
          action_sink g1 = action_sink (init_ap_grammar (Some []) True) @ before
        \<and> length before = length (filter emitting
             [Handler (Track (Some ''Serum'') None None None None), Store ''x'' (PInt 1)])
        \<and> action_sink g2 = action_sink (init_ap_grammar (Some []) True) @ before @ [a]
        \<and> action_sink g3 = action_sink (init_ap_grammar (Some []) True) @ before @ [a] @ after)
   \<and> (\<exists>new. action_sink g3 = action_sink (init_ap_grammar (Some []) True) @ new
          \<and> length new \<le> length
             ([Handler (Track (Some ''Serum'') None None None None), Store ''x'' (PInt 1)]
               @ Handler (NewClip (Some 1) None None None None None) # [Handler (SetName ''Lead'')]))
   \<and> run [Track (Some ''Serum'') None None None None, AddFx None None] init_grammar =
       (Some (ValueError ''FX call must specify fxname or instrument''),
        \<lparr>actions = [[(''action'', PStr ''create_track''), (''instrument'', PStr ''Serum''),
                      (''index'', PInt 0)]],
         current_track_index = 0, track_counter = 1, state = None\<rparr>)
   \<and> (\<exists>new. actions \<lparr>actions = [[(''action'', PStr ''create_track''),
                      (''instrument'', PStr ''Serum''), (''index'', PInt 0)]],
         current_track_index = 0, track_counter = 1, state = None\<rparr> = actions init_grammar @ new
          \<and> length new \<le> length [Track (Some ''Serum'') None None None None, AddFx None None])
   \<and> run ([Track (Some ''Serum'') None None None None]
          @ NewClip (Some 1) None None None None None # [AddFx None None]) init_grammar =
       (Some (ValueError ''FX call must specify fxname or instrument''),
        \<lparr>actions = [[(''action'', PStr ''create_track''), (''instrument'', PStr ''Serum''),
                      (''index'', PInt 0)],
                    [(''track'', PInt 0), (''action'', PStr ''create_clip_at_bar''),
                      (''bar'', PInt 1), (''length_bars'', PInt 4)]],
         current_track_index = 0, track_counter = 1, state = None\<rparr>)
   \<and> (\<exists>before a after.
          actions \<lparr>actions = [[(''action'', PStr ''create_track''),
                      (''instrument'', PStr ''Serum''), (''index'', PInt 0)]],
             current_track_index = 0, track_counter = 1, state = None\<rparr> =
            actions init_grammar @ before
        \<and> length before = length (filter (\<lambda>c. \<not> is_reference c)
             [Track (Some ''Serum'') None None None None])
        \<and> actions \<lparr>actions = [[(''action'', PStr ''create_track''), (''instrument'', PStr ''Serum''),
                      (''index'', PInt 0)],
                    [(''track'', PInt 0), (''action'', PStr ''create_clip_at_bar''),
                      (''bar'', PInt 1), (''length_bars'', PInt 4)]],
             current_track_index = 0, track_counter = 1, state = None\<rparr> =
            actions init_grammar @ before @ [a] @ after)"
proof -
  let ?g = "init_ap_grammar (Some []) True"
  let ?cs = "[Handler (Track (Some ''Serum'') None None None None), Store ''x'' (PInt 1)]"
  let ?c = "Handler (NewClip (Some 1) None None None None None)"
  let ?ds = "[Handler (SetName ''Lead'')]"
  let ?a1 = "\<lparr>kind = ''create_track'', payload = [(''instrument'', PStr ''Serum''), (''index'', PInt 0)]\<rparr>"
  let ?a2 = "\<lparr>kind = ''create_clip_at_bar'',
          payload = [(''track'', PInt 0), (''bar'', PInt 1), (''length_bars'', PInt 4)]\<rparr>"
  let ?a3 = "\<lparr>kind = ''set_track_name'', payload = [(''track'', PInt 0), (''name'', PStr ''Lead'')]\<rparr>"
  let ?g1 = "\<lparr>ap_runtime = Some [?a1], ap_actions = [], ap_current_track_index = 0,
     ap_track_counter = 1, ap_state = None, ap_data = [(''x'', PInt 1)],
     ap_interpreter_dsl_runtime = True\<rparr>"
  let ?g2 = "\<lparr>ap_runtime = Some [?a1, ?a2], ap_actions = [], ap_current_track_index = 0,
     ap_track_counter = 1, ap_state = None, ap_data = [(''x'', PInt 1)],
     ap_interpreter_dsl_runtime = True\<rparr>"
  let ?g3 = "\<lparr>ap_runtime = Some [?a1, ?a2, ?a3], ap_actions = [], ap_current_track_index = 0,
     ap_track_counter = 1, ap_state = None, ap_data = [(''x'', PInt 1)],
     ap_interpreter_dsl_runtime = True\<rparr>"
  let ?ps = "[Track (Some ''Serum'') None None None None, AddFx None None]"
  let ?p' = "\<lparr>actions = [[(''action'', PStr ''create_track''),
                      (''instrument'', PStr ''Serum''), (''index'', PInt 0)]],
         current_track_index = 0, track_counter = 1, state = None\<rparr>"
  have cfg: "ap_interpreter_dsl_runtime ?g = (ap_runtime ?g \<noteq> None)"
    by (simp add: init_ap_grammar_def)
  have r1: "ap_run ?cs ?g = (None, ?g1)"
    by (simp add: init_ap_grammar_def ap_track_def opt_entry_def ap_store_def execute_def)
  have em: "emitting ?c" by simp
  have r2: "ap_exec_call ?c ?g1 = (None, ?g2)"
    by (simp add: ap_new_clip_def ap_clip_action_def opt_int_def emit_action_def execute_def)
  have r3: "ap_run ?ds ?g2 = (None, ?g3)"
    by (simp add: ap_setter_defs emit_action_def execute_def)
  have s3: "action_sink ?g3 = [?a1, ?a2, ?a3]" by (simp add: action_sink_def)
  have pr: "run ?ps init_grammar = (Some (ValueError ''FX call must specify fxname or instrument''), ?p')"
    by (simp add: init_grammar_def track_def opt_entry_def add_fx_def)
  note t = emission_order[where g = ?g and cs = ?cs and c = ?c and ds = ?ds and ?g1.0 = ?g1
      and ?g2.0 = ?g2 and ?g3.0 = ?g3 and r = None]
  from t cfg r1 em r2 r3 have whole: "ap_run (?cs @ ?c # ?ds) ?g = (None, ?g3)"
    and pos: "\<exists>before a after.
          action_sink ?g1 = action_sink ?g @ before
        \<and> length before = length (filter emitting ?cs)
        \<and> action_sink ?g2 = action_sink ?g @ before @ [a]
        \<and> action_sink ?g3 = action_sink ?g @ before @ [a] @ after"
    by blast+
  from emission_order[where g = ?g and cs = "?cs @ ?c # ?ds" and r = None and g' = ?g3] whole
  have app: "\<exists>new. action_sink ?g3 = action_sink ?g @ new \<and> length new \<le> length (?cs @ ?c # ?ds)"
    by blast
  from emission_order[where ps = ?ps and p = init_grammar and p' = ?p'
      and pr = "Some (ValueError ''FX call must specify fxname or instrument'')"] pr
  have papp: "\<exists>new. actions ?p' = actions init_grammar @ new \<and> length new \<le> length ?ps"
    by blast
  let ?p1 = "\<lparr>actions = [[(''action'', PStr ''create_track''),
                      (''instrument'', PStr ''Serum''), (''index'', PInt 0)]],
             current_track_index = 0, track_counter = 1, state = None\<rparr>"
  let ?p2 = "\<lparr>actions = [[(''action'', PStr ''create_track''), (''instrument'', PStr ''Serum''),
                      (''index'', PInt 0)],
                    [(''track'', PInt 0), (''action'', PStr ''create_clip_at_bar''),
                      (''bar'', PInt 1), (''length_bars'', PInt 4)]],
             current_track_index = 0, track_counter = 1, state = None\<rparr>"
  have q1: "run [Track (Some ''Serum'') None None None None] init_grammar = (None, ?p1)"
    by (simp add: init_grammar_def track_def opt_entry_def)
  have q2: "exec_call (NewClip (Some 1) None None None None None) ?p1 = (None, ?p2)"
    by (simp add: new_clip_def clip_action_def opt_int_def)
  have q3: "run [AddFx None None] ?p2 =
      (Some (ValueError ''FX call must specify fxname or instrument''), ?p2)"
    by (simp add: add_fx_def)
  have nr: "\<not> is_reference (NewClip (Some 1) None None None None None)" by simp
  from emission_order[where ps = "[Track (Some ''Serum'') None None None None]"
      and p = init_grammar and ?p1.0 = ?p1 and pc = "NewClip (Some 1) None None None None None"
      and ?p2.0 = ?p2 and qs = "[AddFx None None]" and ?p3.0 = ?p2
      and pr = "Some (ValueError ''FX call must specify fxname or instrument'')"] q1 nr q2 q3
  have pwhole: "run ([Track (Some ''Serum'') None None None None]
          @ NewClip (Some 1) None None None None None # [AddFx None None]) init_grammar =
       (Some (ValueError ''FX call must specify fxname or instrument''), ?p2)"
    and ppos: "\<exists>before a after.
          actions ?p1 = actions init_grammar @ before
        \<and> length before = length (filter (\<lambda>c. \<not> is_reference c)
             [Track (Some ''Serum'') None None None None])
        \<and> actions ?p2 = actions init_grammar @ before @ [a]
        \<and> actions ?p2 = actions init_grammar @ before @ [a] @ after"
    by blast+
  from ppos have ppos': "\<exists>before a after.
          actions ?p1 = actions init_grammar @ before
        \<and> length before = length (filter (\<lambda>c. \<not> is_reference c)
             [Track (Some ''Serum'') None None None None])
        \<and> actions ?p2 = actions init_grammar @ before @ [a] @ after"
    by blast
  from r1 r2 r3 whole s3 pos app pr papp pwhole ppos' show ?thesis by blast
qed

text \<open>\<open>filter(tracks, track.name == "FX")\<close>, \<open>map(get_name, tracks)\<close> and
  \<open>for_each(tracks, get_name)\<close> over \<open>example_items\<close>, whose second item has no name.\<close>

lemma example_rgrammar_simps:
  "rf_data example_rgrammar = [(''tracks'', PList example_items)]"
  "iteration_context example_rgrammar = []"
  by (simp_all add: example_rgrammar_def store_def init_rgrammar_def)

lemma example_resolve:
  "resolve_collection (PStr ''tracks'') example_rgrammar = (PList example_items, ''track'')"
  by (simp add: resolve_collection_def example_rgrammar_simps dict_get_default_def rstrip_def)

lemma example_predicate_fails:
  "eval_predicate example_host (PredNode name_is_FX) (PInt 7)
     (set_iteration_context [(''track'', PInt 7)] g) =
   (Inl (ValueError (''Property '' @ [CHR 0x27] @ ''name'' @ [CHR 0x27] @ '' not found on int'')),
    set_iteration_context [(''track'', PInt 7)] g)"
  by (simp add: name_is_FX_def evaluate_property_access_def set_iteration_context_def
        example_host_def)

lemma example_kept:
  "filter (kept example_host g ''track'' name_is_FX) example_items = [PDict [(''name'', PStr ''FX'')]]"
  by (simp add: example_items_def kept_def name_is_FX_def evaluate_property_access_def
        set_iteration_context_def example_host_def dict_get_default_def operators_def
        apply_operator_def)

lemma example_get_name_fails:
  "get_name (PInt 7) (set_iteration_context [(''track'', PInt 7)] g) =
     (Inl TypeError, set_iteration_context [(''track'', PInt 7)] g)"
  by simp

lemma example_no_function: "dsl_attr example_host g (lstrip ''@'' ''@process_track'') = None"
  by (simp add: dsl_attr_def lstrip_def example_host_def)

lemma get_name_state: "fst (get_name x g') = fst (get_name x g)"
  by (cases x) (simp_all split: option.splits)

lemma example_add_fx_state: "fst (example_add_fx x g') = fst (example_add_fx x g)"
  by (cases x) (simp_all split: option.splits)

lemma example_get_name_results:
  "List.map_filter (\<lambda>x. case fst (get_name x example_rgrammar) of Inr v \<Rightarrow> Some v | Inl e \<Rightarrow> None)
     example_items = [PStr ''FX'', PStr ''Bass'']"
  "filter (\<lambda>x. case fst (get_name x example_rgrammar) of Inr v \<Rightarrow> truthy v | Inl e \<Rightarrow> False)
     example_items = [PDict [(''name'', PStr ''FX'')], PDict [(''name'', PStr ''Bass'')]]"
  "List.map_filter (\<lambda>x. case fst (get_name x example_rgrammar) of
       Inl e \<Rightarrow> Some (''Error mapping function over item: '', e) | Inr v \<Rightarrow> None) example_items =
     [(''Error mapping function over item: '', TypeError)]"
  by (simp_all add: example_items_def List.map_filter_simps)

lemma example_node_warnings:
  "List.map_filter (\<lambda>x. case evaluate_value example_host
         (set_iteration_context [(''track'', x)] example_rgrammar) name_is_FX of
       Inl e \<Rightarrow> Some (''Error evaluating predicate for item: '', e) | Inr v \<Rightarrow> None) example_items =
     [(''Error evaluating predicate for item: '',
       ValueError (''Property '' @ [CHR 0x27] @ ''name'' @ [CHR 0x27] @ '' not found on int''))]"
  by (simp add: example_items_def List.map_filter_simps name_is_FX_def
        evaluate_property_access_def set_iteration_context_def example_host_def
        dict_get_default_def operators_def apply_operator_def)

lemma example_for_each_effect:
  "foldl (\<lambda>g' x. clear_iteration_context
            (snd (example_add_fx x (set_iteration_context [(''item'', x)] g'))))
     example_rgrammar [PDict [(''index'', PInt 0)], PInt 7, PDict [(''index'', PInt 2)]] =
   example_rgrammar\<lparr>rf_actions :=
     [[(''action'', PStr ''add_track_fx''), (''track'', PInt 0), (''fxname'', PStr ''ReaVerb'')],
      [(''action'', PStr ''add_track_fx''), (''track'', PInt 2), (''fxname'', PStr ''ReaVerb'')]]\<rparr>"
  by (simp add: example_rgrammar_def store_def init_rgrammar_def set_iteration_context_def
        clear_iteration_context_def)

lemma example_for_each_warned:
  "List.map_filter (\<lambda>x. case fst (example_add_fx x example_rgrammar) of
       Inl e \<Rightarrow> Some (''Error executing action for item: '', e) | Inr v \<Rightarrow> None)
     [PDict [(''index'', PInt 0)], PInt 7, PDict [(''index'', PInt 2)]] =
   [(''Error executing action for item: '', TypeError)]"
  by (simp add: List.map_filter_simps)

theorem combinator_error_policy_witness:
  "filter_loop example_host ''track'' (PredNode name_is_FX)
       (PInt 7 # [PDict [(''name'', PStr ''Bass'')]]) [PDict [(''name'', PStr ''FX'')]]
       example_rgrammar =
     filter_loop example_host ''track'' (PredNode name_is_FX)
       [PDict [(''name'', PStr ''Bass'')]] [PDict [(''name'', PStr ''FX'')]]
       (clear_iteration_context (set_iteration_context [(''track'', PInt 7)] example_rgrammar))
   \<and> map_loop ''track'' get_name (PInt 7 # [PDict [(''name'', PStr ''Bass'')]]) [PStr ''FX'']
       example_rgrammar =
     map_loop ''track'' get_name [PDict [(''name'', PStr ''Bass'')]] [PStr ''FX'']
       (clear_iteration_context (set_iteration_context [(''track'', PInt 7)] example_rgrammar))
   \<and> for_each_loop ''track'' get_name (PInt 7 # [PDict [(''name'', PStr ''Bass'')]])
       example_rgrammar =
     for_each_loop ''track'' get_name [PDict [(''name'', PStr ''Bass'')]]
       (clear_iteration_context (set_iteration_context [(''track'', PInt 7)] example_rgrammar))
   \<and> fst (filter_method example_host (PStr ''tracks'') (PredNode name_is_FX) example_rgrammar) =
       Inr [PDict [(''name'', PStr ''FX'')]]
   \<and> filter_warnings example_host ''track'' (PredNode name_is_FX) example_items example_rgrammar =
       [(''Error evaluating predicate for item: '',
         ValueError (''Property '' @ [CHR 0x27] @ ''name'' @ [CHR 0x27] @ '' not found on int''))]
   \<and> fst (filter_method example_host (PStr ''tracks'') (PredCallable get_name) example_rgrammar) =
       Inr [PDict [(''name'', PStr ''FX'')], PDict [(''name'', PStr ''Bass'')]]
   \<and> fst (map_method example_host (FuncCallable get_name) (PStr ''tracks'') example_rgrammar) =
       Inr [PStr ''FX'', PStr ''Bass'']
   \<and> map_warnings ''track'' get_name example_items example_rgrammar =
       [(''Error mapping function over item: '', TypeError)]
   \<and> for_each example_host (PList [PDict [(''index'', PInt 0)], PInt 7, PDict [(''index'', PInt 2)]])
       (FuncCallable example_add_fx) example_rgrammar =
     (None, example_rgrammar\<lparr>rf_actions :=
        [[(''action'', PStr ''add_track_fx''), (''track'', PInt 0), (''fxname'', PStr ''ReaVerb'')],
         [(''action'', PStr ''add_track_fx''), (''track'', PInt 2), (''fxname'', PStr ''ReaVerb'')]]\<rparr>)
   \<and> for_each_warnings ''item'' example_add_fx
       [PDict [(''index'', PInt 0)], PInt 7, PDict [(''index'', PInt 2)]] example_rgrammar =
       [(''Error executing action for item: '', TypeError)]
   \<and> map_method example_host (FuncValue (PStr ''@process_track'')) (PStr ''tracks'')
       example_rgrammar =
     (Inl (ValueError (''Unknown function: '' @ lstrip ''@'' ''@process_track'')), example_rgrammar)
   \<and> for_each example_host (PStr ''tracks'') (FuncValue (PStr ''@process_track''))
       example_rgrammar =
     (Some (ValueError (''Unknown function: '' @ lstrip ''@'' ''@process_track'')), example_rgrammar)
   \<and> filter_method example_host (PInt 5) (PredNode name_is_FX) example_rgrammar =
     (Inl (ValueError (''Collection must be a list, got '' @ type_name (PInt 5))), example_rgrammar)
   \<and> map_method example_host (FuncCallable get_name) (PInt 5) example_rgrammar =
     (Inl (ValueError (''Collection must be a list, got '' @ type_name (PInt 5))), example_rgrammar)
   \<and> for_each example_host (PInt 5) (FuncCallable get_name) example_rgrammar =
     (Some (ValueError (''Collection must be a list, got '' @ type_name (PInt 5))), example_rgrammar)"
proof -
  let ?g = example_rgrammar
  let ?bass = "[PDict [(''name'', PStr ''Bass'')]]"
  let ?g1 = "set_iteration_context [(''track'', PInt 7)] ?g"
  let ?ix = "[PDict [(''index'', PInt 0)], PInt 7, PDict [(''index'', PInt 2)]]"
  have rf: "resolve_function example_host (FuncCallable get_name) ?g = Inr get_name"
    by (simp add: resolve_function_def)
  have rfx: "resolve_function example_host (FuncCallable example_add_fx) ?g = Inr example_add_fx"
    by (simp add: resolve_function_def)
  have rcx: "resolve_collection (PList ?ix) ?g = (PList ?ix, ''item'')"
    by (simp add: resolve_collection_def)
  have r5: "resolve_collection (PInt 5) ?g = (PInt 5, ''item'') \<and> (\<forall>ys. PInt 5 \<noteq> PList ys)"
    by (simp add: resolve_collection_def)
  have pn: "\<forall>x g'. fst (get_name x g') = fst (get_name x ?g)"
    using get_name_state by blast
  have px: "\<forall>x g'. fst (example_add_fx x g') = fst (example_add_fx x ?g)"
    using example_add_fx_state by blast
  note t = combinator_error_policy[where h = example_host and pred = "PredNode name_is_FX"
      and item = "PInt 7" and iv = "''track''" and g = ?g and ?g1.0 = ?g1 and items = ?bass
      and filtered = "[PDict [(''name'', PStr ''FX'')]]" and coll = "PStr ''tracks''"
      and xs = example_items and n = name_is_FX and fa = "FuncCallable get_name"
      and f = get_name and c = get_name and p = "\<lambda>x. fst (get_name x ?g)"
      and name = "''@process_track''"
      and e = "ValueError (''Property '' @ [CHR 0x27] @ ''name'' @ [CHR 0x27] @ '' not found on int'')"]
  note u = combinator_error_policy[where f = get_name and item = "PInt 7" and iv = "''track''"
      and g = ?g and ?g1.0 = ?g1 and items = ?bass and mapped = "[PStr ''FX'']" and e = TypeError]
  note w = combinator_error_policy[where h = example_host and pred = "PredNode name_is_FX"
      and g = ?g and coll = "PInt 5" and v = "PInt 5" and iv = "''item''"
      and fa = "FuncCallable get_name"]
  note x = combinator_error_policy[where h = example_host and g = ?g and coll = "PList ?ix"
      and xs = ?ix and iv = "''item''" and fa = "FuncCallable example_add_fx"
      and f = example_add_fx and p = "\<lambda>x. fst (example_add_fx x ?g)"]
  from t example_predicate_fails[of ?g]
  have 1: "filter_loop example_host ''track'' (PredNode name_is_FX) (PInt 7 # ?bass)
       [PDict [(''name'', PStr ''FX'')]] ?g =
     filter_loop example_host ''track'' (PredNode name_is_FX) ?bass
       [PDict [(''name'', PStr ''FX'')]] (clear_iteration_context ?g1)"
    by blast
  from u example_get_name_fails[of ?g]
  have 2: "map_loop ''track'' get_name (PInt 7 # ?bass) [PStr ''FX''] ?g =
     map_loop ''track'' get_name ?bass [PStr ''FX''] (clear_iteration_context ?g1)"
    and 3: "for_each_loop ''track'' get_name (PInt 7 # ?bass) ?g =
     for_each_loop ''track'' get_name ?bass (clear_iteration_context ?g1)"
    by blast+
  from t example_resolve
  have "fst (filter_method example_host (PStr ''tracks'') (PredNode name_is_FX) ?g) =
       Inr (filter (kept example_host ?g ''track'' name_is_FX) example_items)"
    by blast
  then have 4: "fst (filter_method example_host (PStr ''tracks'') (PredNode name_is_FX) ?g) =
       Inr [PDict [(''name'', PStr ''FX'')]]"
    by (simp only: example_kept)
  from t example_resolve
  have "filter_warnings example_host ''track'' (PredNode name_is_FX) example_items ?g =
      List.map_filter (\<lambda>x. case evaluate_value example_host
         (set_iteration_context [(''track'', x)] ?g) name_is_FX of
       Inl e \<Rightarrow> Some (''Error evaluating predicate for item: '', e) | Inr v \<Rightarrow> None) example_items"
    by blast
  then have 5: "filter_warnings example_host ''track'' (PredNode name_is_FX) example_items ?g =
       [(''Error evaluating predicate for item: '',
         ValueError (''Property '' @ [CHR 0x27] @ ''name'' @ [CHR 0x27] @ '' not found on int''))]"
    by (simp only: example_node_warnings)
  from t example_resolve pn
  have "fst (filter_method example_host (PStr ''tracks'') (PredCallable get_name) ?g) =
       Inr (filter (\<lambda>x. case fst (get_name x ?g) of Inr v \<Rightarrow> truthy v | Inl e \<Rightarrow> False)
         example_items)"
    by blast
  then have 6: "fst (filter_method example_host (PStr ''tracks'') (PredCallable get_name) ?g) =
       Inr [PDict [(''name'', PStr ''FX'')], PDict [(''name'', PStr ''Bass'')]]"
    by (simp only: example_get_name_results)
  from t example_resolve rf pn
  have "fst (map_method example_host (FuncCallable get_name) (PStr ''tracks'') ?g) =
       Inr (List.map_filter (\<lambda>x. case fst (get_name x ?g) of Inr v \<Rightarrow> Some v | Inl e \<Rightarrow> None)
         example_items)"
    and "map_warnings ''track'' get_name example_items ?g =
       List.map_filter (\<lambda>x. case fst (get_name x ?g) of
         Inl e \<Rightarrow> Some (''Error mapping function over item: '', e) | Inr v \<Rightarrow> None) example_items"
    by blast+
  then have 7: "fst (map_method example_host (FuncCallable get_name) (PStr ''tracks'') ?g) =
       Inr [PStr ''FX'', PStr ''Bass'']"
    and 8: "map_warnings ''track'' get_name example_items ?g =
       [(''Error mapping function over item: '', TypeError)]"
    by (simp_all only: example_get_name_results)
  from x rcx rfx
  have "for_each example_host (PList ?ix) (FuncCallable example_add_fx) ?g =
       (None, for_each_loop ''item'' example_add_fx ?ix ?g)"
    and "for_each_loop ''item'' example_add_fx ?ix ?g =
       foldl (\<lambda>g' x. clear_iteration_context
            (snd (example_add_fx x (set_iteration_context [(''item'', x)] g')))) ?g ?ix"
    by blast+
  then have 9: "for_each example_host (PList ?ix) (FuncCallable example_add_fx) ?g =
     (None, ?g\<lparr>rf_actions :=
        [[(''action'', PStr ''add_track_fx''), (''track'', PInt 0), (''fxname'', PStr ''ReaVerb'')],
         [(''action'', PStr ''add_track_fx''), (''track'', PInt 2), (''fxname'', PStr ''ReaVerb'')]]\<rparr>)"
    by (simp only: example_for_each_effect)
  from x rcx rfx px
  have "for_each_warnings ''item'' example_add_fx ?ix ?g =
     List.map_filter (\<lambda>x. case fst (example_add_fx x ?g) of
       Inl e \<Rightarrow> Some (''Error executing action for item: '', e) | Inr v \<Rightarrow> None) ?ix"
    by blast
  then have 10: "for_each_warnings ''item'' example_add_fx ?ix ?g =
       [(''Error executing action for item: '', TypeError)]"
    by (simp only: example_for_each_warned)
  from t example_resolve example_no_function[of ?g]
  have 11: "map_method example_host (FuncValue (PStr ''@process_track'')) (PStr ''tracks'') ?g =
     (Inl (ValueError (''Unknown function: '' @ lstrip ''@'' ''@process_track'')), ?g)"
    and 12: "for_each example_host (PStr ''tracks'') (FuncValue (PStr ''@process_track'')) ?g =
     (Some (ValueError (''Unknown function: '' @ lstrip ''@'' ''@process_track'')), ?g)"
    by blast+
  from w r5
  have 13: "filter_method example_host (PInt 5) (PredNode name_is_FX) ?g =
     (Inl (ValueError (''Collection must be a list, got '' @ type_name (PInt 5))), ?g)"
    and 14: "map_method example_host (FuncCallable get_name) (PInt 5) ?g =
     (Inl (ValueError (''Collection must be a list, got '' @ type_name (PInt 5))), ?g)"
    and 15: "for_each example_host (PInt 5) (FuncCallable get_name) ?g =
     (Some (ValueError (''Collection must be a list, got '' @ type_name (PInt 5))), ?g)"
    by blast+
  from 1 2 3 4 5 6 7 8 9 10 11 12 13 14 15 show ?thesis by blast
qed

text \<open>
  Claim C3 as stated fails for \<open>filter\<close>: given the unknown reference \<open>@nope\<close> as its
  predicate it returns a list, all items when the library evaluates the string to itself and
  none when the library raises on it, where \<open>map\<close> fails with \<open>Unknown function\<close>.
\<close>

theorem filter_unknown_reference_counterexample:
  "filter_method example_host (PStr ''tracks'') (PredValue (PStr ''@nope'')) example_rgrammar =
     (Inr example_items, example_rgrammar)
   \<and> filter_method (example_host\<lparr>evaluate_other := (\<lambda>v g. Inl (ValueError ''unknown''))\<rparr>)
       (PStr ''tracks'') (PredValue (PStr ''@nope'')) example_rgrammar =
     (Inr [], example_rgrammar)
   \<and> map_method example_host (FuncValue (PStr ''@nope'')) (PStr ''tracks'') example_rgrammar =
     (Inl (ValueError ''Unknown function: nope''), example_rgrammar)"
  by (simp add: filter_method_def map_method_def resolve_function_def example_resolve
        example_items_def example_host_def set_iteration_context_def clear_iteration_context_def
        example_rgrammar_simps dsl_attr_def lstrip_def)

theorem iteration_binding_cleared_witness:
  "iteration_context (snd (filter_loop example_host ''track'' (PredNode name_is_FX)
       (PInt 7 # [PDict [(''name'', PStr ''Bass'')]]) [] example_rgrammar)) = []
   \<and> filter_loop example_host ''track'' (PredNode name_is_FX)
       (PInt 7 # [PDict [(''name'', PStr ''Bass'')]]) [] example_rgrammar =
     filter_loop example_host ''track'' (PredNode name_is_FX) [PDict [(''name'', PStr ''Bass'')]]
       (case (Inl (ValueError (''Property '' @ [CHR 0x27] @ ''name'' @ [CHR 0x27]
                      @ '' not found on int'')) :: error + pyval) of
          Inr v \<Rightarrow> if truthy v then [] @ [PInt 7] else []
        | Inl e \<Rightarrow> [])
       ((set_iteration_context [(''track'', PInt 7)] example_rgrammar)\<lparr>iteration_context := []\<rparr>)
   \<and> for_each_loop ''track'' get_name (PInt 7 # [PDict [(''name'', PStr ''Bass'')]])
       example_rgrammar =
     for_each_loop ''track'' get_name [PDict [(''name'', PStr ''Bass'')]]
       ((set_iteration_context [(''track'', PInt 7)] example_rgrammar)\<lparr>iteration_context := []\<rparr>)
   \<and> iteration_context example_rgrammar = []
   \<and> iteration_context (snd (filter_method example_host (PStr ''tracks'') (PredNode name_is_FX)
        example_rgrammar)) = []
   \<and> iteration_context (snd (map_method example_host (FuncCallable get_name) (PStr ''tracks'')
        example_rgrammar)) = []
   \<and> iteration_context (snd (for_each example_host (PInt 5) (FuncCallable get_name)
        example_rgrammar)) = []"
proof -
  let ?g = example_rgrammar
  let ?bass = "[PDict [(''name'', PStr ''Bass'')]]"
  let ?g1 = "set_iteration_context [(''track'', PInt 7)] ?g"
  let ?e = "ValueError (''Property '' @ [CHR 0x27] @ ''name'' @ [CHR 0x27] @ '' not found on int'')"
  have c: "iteration_context ?g = []" by (rule example_rgrammar_simps)
  note t = iteration_binding_cleared[where h = example_host and pred = "PredNode name_is_FX"
      and x = "PInt 7" and xs = ?bass and iv = "''track''" and g = ?g and ?g1.0 = ?g1
      and filtered = "[]" and r = "Inl ?e" and coll = "PStr ''tracks''"
      and fa = "FuncCallable get_name"]
  note u = iteration_binding_cleared[where f = get_name and x = "PInt 7" and xs = ?bass
      and iv = "''track''" and g = ?g and ?g1.0 = ?g1 and r = "Inl TypeError"]
  note w = iteration_binding_cleared[where h = example_host and g = ?g and coll = "PInt 5"
      and fa = "FuncCallable get_name"]
  from t have 1: "iteration_context (snd (filter_loop example_host ''track'' (PredNode name_is_FX)
       (PInt 7 # ?bass) [] ?g)) = []"
    by blast
  from t example_predicate_fails[of ?g]
  have 2: "filter_loop example_host ''track'' (PredNode name_is_FX) (PInt 7 # ?bass) [] ?g =
     filter_loop example_host ''track'' (PredNode name_is_FX) ?bass
       (case (Inl ?e :: error + pyval) of
          Inr v \<Rightarrow> if truthy v then [] @ [PInt 7] else []
        | Inl e \<Rightarrow> [])
       (?g1\<lparr>iteration_context := []\<rparr>)"
    by blast
  from u example_get_name_fails[of ?g]
  have 3: "for_each_loop ''track'' get_name (PInt 7 # ?bass) ?g =
     for_each_loop ''track'' get_name ?bass (?g1\<lparr>iteration_context := []\<rparr>)"
    by blast
  from t c have 4: "iteration_context (snd (filter_method example_host (PStr ''tracks'')
        (PredNode name_is_FX) ?g)) = []"
    and 5: "iteration_context (snd (map_method example_host (FuncCallable get_name)
        (PStr ''tracks'') ?g)) = []"
    by blast+
  from w c have 6: "iteration_context (snd (for_each example_host (PInt 5)
        (FuncCallable get_name) ?g)) = []"
    by blast
  from 1 2 3 c 4 5 6 show ?thesis by blast
qed

end
